theory Spec2Isabelle
  imports Complex_Main
begin

section \<open>Image-like displayables of renpy/display/imagelike.py\<close>

text \<open>
  The embedding follows \<^verbatim>\<open>src/renpy/display/imagelike.py\<close>. Sizes and coordinates of
  \<^verbatim>\<open>Frame\<close> are Python integers (\<open>int\<close>; \<^verbatim>\<open>//\<close> and \<^verbatim>\<open>%\<close> are \<open>div\<close> and \<open>mod\<close>, both
  flooring). A Python float is the rational number it stands for; converting to float
  and dividing floats round to the nearest double (\<open>float_round\<close>, \<open>float_div\<close>). Infinities
  and NaN are left out, and so is the \<^verbatim>\<open>OverflowError\<close> that Python raises when an integer
  of about \<open>2 ^ 1024\<close> or more is converted to float.
\<close>

subsection \<open>Floating point\<close>

text \<open>
  \<open>ilog2 n\<close> is the integer part of the binary logarithm of a positive integer, and
  \<open>floor_log2 q\<close> that of a positive rational: for \<open>q < 1\<close> it is minus the least \<open>k\<close>
  with \<open>2 ^ k \<ge> 1 / q\<close>.
\<close>

function ilog2 :: "int \<Rightarrow> int" where
  "ilog2 n = (if n < 2 then 0 else 1 + ilog2 (n div 2))"
  by pat_completeness auto
termination
  by (relation "measure nat") auto

declare ilog2.simps [simp del]

definition floor_log2 :: "rat \<Rightarrow> int" where
  "floor_log2 q =
     (if 1 \<le> q then ilog2 \<lfloor>q\<rfloor>
      else if \<lceil>1 / q\<rceil> \<le> 1 then 0 else - (ilog2 (\<lceil>1 / q\<rceil> - 1) + 1))"

definition pow2 :: "int \<Rightarrow> rat" where
  "pow2 k = (if 0 \<le> k then 2 ^ nat k else 1 / 2 ^ nat (- k))"

text \<open>Rounding to the nearest integer, a tie going to the even one.\<close>

definition round_half_even :: "rat \<Rightarrow> int" where
  "round_half_even q =
     (let f = \<lfloor>q\<rfloor>; r = q - of_int f
      in if r < 1 / 2 then f else if 1 / 2 < r then f + 1 else if even f then f else f + 1)"

text \<open>
  The double nearest to a rational (IEEE 754 binary64, round to nearest, ties to even):
  53 significant bits, so the spacing at \<open>q\<close> is \<open>2\<close> to the power \<open>floor_log2 \<bar>q\<bar> - 52\<close>,
  and never less than \<open>2\<close> to the power \<open>- 1074\<close> (subnormal numbers). It is what
  \<^verbatim>\<open>float(n)\<close> and the implicit conversion of an \<^verbatim>\<open>int\<close> operand give, and it leaves a
  double unchanged.
\<close>

definition float_round :: "rat \<Rightarrow> rat" where
  "float_round q =
     (if q = 0 then 0
      else
        (let a = \<bar>q\<bar>;
             e = max (floor_log2 a) (- 1022);
             ulp = pow2 (e - 52)
         in sgn q * (of_int (round_half_even (a / ulp)) * ulp)))"

text \<open>
  \<^verbatim>\<open>a / b\<close> where at least one operand is a float: both operands as doubles, and the
  quotient rounded. The divisor is never zero where the code divides.
\<close>

definition float_div :: "rat \<Rightarrow> rat \<Rightarrow> rat" where
  "float_div a b = float_round (float_round a / float_round b)"

subsection \<open>Frame: configuration and legacy upgrade\<close>

text \<open>
  \<^verbatim>\<open>self.tile\<close> is \<^verbatim>\<open>False\<close>, \<^verbatim>\<open>True\<close> or the string \<^verbatim>\<open>"integer"\<close>.
\<close>

datatype tile_mode = Tile_False | Tile_True | Tile_Integer

text \<open>
  The attributes of a \<^verbatim>\<open>Frame\<close> object. \<^verbatim>\<open>xborder\<close> and \<^verbatim>\<open>yborder\<close> exist only on objects
  persisted by an old version, hence the options.
\<close>

record frame =
  self_left :: int
  self_top :: int
  self_right :: int
  self_bottom :: int
  self_tile :: tile_mode
  self_tile_ratio :: rat
  self_xborder :: "int option"
  self_yborder :: "int option"

datatype error = AttributeError

text \<open>
  \<^verbatim>\<open>Frame.after_upgrade\<close> (lines 195-200). Reading an attribute that the object does not
  have raises \<^verbatim>\<open>AttributeError\<close>.
\<close>

definition after_upgrade :: "frame \<Rightarrow> int \<Rightarrow> error + frame" where
  "after_upgrade self version =
     (if version < 2 then
        (case self_xborder self of
           None \<Rightarrow> Inl AttributeError
         | Some xb \<Rightarrow>
            (case self_yborder self of
               None \<Rightarrow> Inl AttributeError
             | Some yb \<Rightarrow>
                 Inr (self\<lparr>self_left := xb, self_right := xb,
                           self_top := yb, self_bottom := yb\<rparr>)))
      else Inr self)"

text \<open>
  \<^verbatim>\<open>Borders\<close> (lines 99-142): insets, paddings and the derived \<^verbatim>\<open>padding\<close> tuple.
\<close>

record borders =
  b_left :: int
  b_top :: int
  b_right :: int
  b_bottom :: int
  pad_left :: int
  pad_top :: int
  pad_right :: int
  pad_bottom :: int

definition padding :: "borders \<Rightarrow> int \<times> int \<times> int \<times> int" where
  "padding self =
     (b_left self + pad_left self, b_top self + pad_top self,
      b_right self + pad_right self, b_bottom self + pad_bottom self)"

text \<open>
  \<^verbatim>\<open>Frame.__init__\<close> (lines 202-248). The argument \<^verbatim>\<open>left\<close> is \<^verbatim>\<open>None\<close>, a number or a
  \<^verbatim>\<open>Borders\<close> object; \<^verbatim>\<open>float(tile_ratio)\<close> is stored. The constructor sets no
  \<^verbatim>\<open>xborder\<close> or \<^verbatim>\<open>yborder\<close> attribute.
\<close>

datatype left_arg = Left_None | Left_int int | Left_Borders borders

definition Frame_init ::
  "left_arg \<Rightarrow> int option \<Rightarrow> int option \<Rightarrow> int option \<Rightarrow> int \<Rightarrow> int \<Rightarrow> tile_mode \<Rightarrow> rat \<Rightarrow> frame" where
  "Frame_init left top' right bottom xborder yborder tile tile_ratio =
     (let (left, top', right, bottom) =
            (case left of
               Left_Borders insets \<Rightarrow>
                 (Some (b_left insets), Some (b_top insets),
                  Some (b_right insets), Some (b_bottom insets))
             | Left_int l \<Rightarrow> (Some l, top', right, bottom)
             | Left_None \<Rightarrow> (None, top', right, bottom));
          left = (case left of None \<Rightarrow> xborder | Some l \<Rightarrow> l);
          top' = (case top' of None \<Rightarrow> yborder | Some t \<Rightarrow> t);
          right = (case right of None \<Rightarrow> left | Some r \<Rightarrow> r);
          bottom = (case bottom of None \<Rightarrow> top' | Some b \<Rightarrow> b)
      in \<lparr>self_left = left, self_top = top', self_right = right, self_bottom = bottom,
          self_tile = tile, self_tile_ratio = float_round tile_ratio,
          self_xborder = None, self_yborder = None\<rparr>)"

subsection \<open>Frame.render: clamping the borders\<close>

text \<open>
  Lines 309-326 of \<^verbatim>\<open>Frame.render\<close>: from the configured insets, the size \<open>sw \<times> sh\<close> of
  the child's render and the size \<open>dw \<times> dh\<close> of the result, the borders
  \<open>(left, top, right, bottom)\<close> handed to \<^verbatim>\<open>draw_pattern\<close>. The tests
  \<^verbatim>\<open>if xborder and bw\<close> are tests for non-zero.
\<close>

definition render_borders :: "frame \<Rightarrow> int \<Rightarrow> int \<Rightarrow> int \<Rightarrow> int \<Rightarrow> int \<times> int \<times> int \<times> int" where
  "render_borders self sw sh dw dh =
     (let bw = self_left self + self_right self;
          bh = self_top self + self_bottom self;
          xborder = min bw (min (sw - 2) dw);
          (left, right) =
            (if xborder \<noteq> 0 \<and> bw \<noteq> 0
             then (self_left self * xborder div bw, self_right self * xborder div bw)
             else (0, 0));
          yborder = min bh (min (sh - 2) dh);
          (top', bottom) =
            (if yborder \<noteq> 0 \<and> bh \<noteq> 0
             then (self_top self * yborder div bh, self_bottom self * yborder div bh)
             else (0, 0))
      in (left, top', right, bottom))"

text \<open>The four components of the clamped borders, and the two combined borders.\<close>

definition dest_left :: "frame \<Rightarrow> int \<Rightarrow> int \<Rightarrow> int \<Rightarrow> int \<Rightarrow> int" where
  "dest_left self sw sh dw dh = (case render_borders self sw sh dw dh of (l, t, r, b) \<Rightarrow> l)"

definition dest_top :: "frame \<Rightarrow> int \<Rightarrow> int \<Rightarrow> int \<Rightarrow> int \<Rightarrow> int" where
  "dest_top self sw sh dw dh = (case render_borders self sw sh dw dh of (l, t, r, b) \<Rightarrow> t)"

definition dest_right :: "frame \<Rightarrow> int \<Rightarrow> int \<Rightarrow> int \<Rightarrow> int \<Rightarrow> int" where
  "dest_right self sw sh dw dh = (case render_borders self sw sh dw dh of (l, t, r, b) \<Rightarrow> r)"

definition dest_bottom :: "frame \<Rightarrow> int \<Rightarrow> int \<Rightarrow> int \<Rightarrow> int \<Rightarrow> int" where
  "dest_bottom self sw sh dw dh = (case render_borders self sw sh dw dh of (l, t, r, b) \<Rightarrow> b)"

text \<open>
  The locals \<^verbatim>\<open>bw\<close>, \<^verbatim>\<open>bh\<close>, \<^verbatim>\<open>xborder\<close> and \<^verbatim>\<open>yborder\<close> of lines 309-320, named
  so that statements can refer to them.
\<close>

definition bw :: "frame \<Rightarrow> int" where
  "bw self = self_left self + self_right self"

definition bh :: "frame \<Rightarrow> int" where
  "bh self = self_top self + self_bottom self"

definition xb :: "frame \<Rightarrow> int \<Rightarrow> int \<Rightarrow> int" where
  "xb self sw dw = min (bw self) (min (sw - 2) dw)"

definition yb :: "frame \<Rightarrow> int \<Rightarrow> int \<Rightarrow> int" where
  "yb self sh dh = min (bh self) (min (sh - 2) dh)"

subsection \<open>Renders of the texture path\<close>

text \<open>
  \<^verbatim>\<open>Matrix2D(xdx, xdy, ydx, ydy)\<close>: the four entries of a 2x2 matrix, with the matrix
  product and the identity.
\<close>

type_synonym matrix2d = "rat \<times> rat \<times> rat \<times> rat"



text \<open>
  Pixel surfaces of the software path: a piece of the source texture
  (\<^verbatim>\<open>source.subsurface\<close>), a fresh surface of a size with the blits made into it
  (\<^verbatim>\<open>swdraw.surface\<close>, \<^verbatim>\<open>pgrender.surface_unscaled\<close>), a piece of another surface
  (\<^verbatim>\<open>surf2.subsurface\<close>), and the result of \<^verbatim>\<open>real_transform_scale\<close>.
\<close>

datatype surface =
    Source_subsurface int int int int
  | Surface int int "(surface \<times> int \<times> int) list"
  | Sub surface int int int int
  | Transform_scale surface "int \<times> int"

text \<open>
  A \<^verbatim>\<open>Render\<close> object: width, height, \<^verbatim>\<open>xclipping\<close>, \<^verbatim>\<open>yclipping\<close>, \<^verbatim>\<open>forward\<close>,
  \<^verbatim>\<open>reverse\<close> and the children blitted into it, in order, each with its offset.
  \<^verbatim>\<open>Subsurface\<close> is a piece \<open>(x, y, w, h)\<close> of the child's render
  (\<^verbatim>\<open>crend.subsurface\<close>), \<^verbatim>\<open>Texture\<close> a pixel surface used as a child.
\<close>

datatype render =
    Subsurface int int int int
  | Texture surface
  | Render int int bool bool "matrix2d option" "matrix2d option" "(render \<times> int \<times> int) list"

text \<open>\<^verbatim>\<open>Render(w, h)\<close>: no clipping, no transform, no children.\<close>

definition new_Render :: "int \<Rightarrow> int \<Rightarrow> render" where
  "new_Render w h = Render w h False False None None []"

text \<open>\<^verbatim>\<open>rv.blit(source, pos)\<close> appends a child.\<close>

fun blit :: "render \<Rightarrow> render \<Rightarrow> int \<times> int \<Rightarrow> render" where
  "blit (Render w h xc yc fw rv cs) source (x, y) = Render w h xc yc fw rv (cs @ [(source, x, y)])"
| "blit rv source pos = rv"

fun blits :: "render \<Rightarrow> (render \<times> int \<times> int) list" where
  "blits (Render w h xc yc fw rv cs) = cs"
| "blits rv = []"

fun surface_get_size :: "surface \<Rightarrow> int \<times> int" where
  "surface_get_size (Source_subsurface x y w h) = (w, h)"
| "surface_get_size (Surface w h bs) = (w, h)"
| "surface_get_size (Sub s x y w h) = (w, h)"
| "surface_get_size (Transform_scale s dstsize) = dstsize"

fun get_size :: "render \<Rightarrow> int \<times> int" where
  "get_size (Render w h xc yc fw rv cs) = (w, h)"
| "get_size (Subsurface x y w h) = (w, h)"
| "get_size (Texture s) = surface_get_size s"

text \<open>\<^verbatim>\<open>dest.blit(surf, pos)\<close> on a pixel surface.\<close>

fun surface_blit :: "surface \<Rightarrow> surface \<Rightarrow> int \<times> int \<Rightarrow> surface" where
  "surface_blit (Surface w h bs) source (x, y) = Surface w h (bs @ [(source, x, y)])"
| "surface_blit dest source pos = dest"

subsection \<open>Frame.render: the draw closure\<close>

text \<open>
  Lines 387-402: the tile counts \<^verbatim>\<open>xtiles\<close>, \<^verbatim>\<open>ytiles\<close> and the size \<^verbatim>\<open>ctw, cth\<close> of the
  tiled render, for a cell of source size \<open>csw \<times> csh\<close> and destination size
  \<open>cdw \<times> cdh\<close>. It runs only after the guard of line 378, so \<open>csw\<close> and \<open>csh\<close> are
  positive and no division by zero arises. \<^verbatim>\<open>cdw % csw / float(csw)\<close> is a division of
  floats.
\<close>

definition tiles :: "frame \<Rightarrow> int \<Rightarrow> int \<Rightarrow> int \<Rightarrow> int \<Rightarrow> int \<times> int \<times> int \<times> int" where
  "tiles self csw csh cdw cdh =
     (let xtiles = max 1 (cdw div csw + (if cdw mod csw \<noteq> 0 then 1 else 0));
          ytiles = max 1 (cdh div csh + (if cdh mod csh \<noteq> 0 then 1 else 0))
      in if (cdw mod csw \<noteq> 0 \<or> cdh mod csh \<noteq> 0) \<and> self_tile self = Tile_Integer then
           (let xtiles = (if float_div (of_int (cdw mod csw)) (of_int csw) < self_tile_ratio self
                          then max 1 (xtiles - 1) else xtiles);
                ytiles = (if float_div (of_int (cdh mod csh)) (of_int csh) < self_tile_ratio self
                          then max 1 (ytiles - 1) else ytiles)
            in (xtiles, ytiles, csw * xtiles, csh * ytiles))
         else (xtiles, ytiles, cdw, cdh))"

text \<open>
  Lines 404-410: the clipping render of size \<open>ctw \<times> cth\<close> with \<open>cr\<close> blitted at
  \<open>(x * csw, y * csh)\<close> for \<open>x\<close> in \<^verbatim>\<open>range(0, xtiles)\<close> and, inside, \<open>y\<close> in
  \<^verbatim>\<open>range(0, ytiles)\<close>.
\<close>

definition tiled :: "render \<Rightarrow> int \<Rightarrow> int \<Rightarrow> int \<Rightarrow> int \<Rightarrow> int \<Rightarrow> int \<Rightarrow> render" where
  "tiled cr csw csh xtiles ytiles ctw cth =
     foldl (\<lambda>newcr (x, y). blit newcr cr (x * csw, y * csh))
       (Render ctw cth True True None None [])
       (List.product [0..xtiles - 1] [0..ytiles - 1])"

text \<open>
  Lines 416-420: the render of size \<open>cdw \<times> cdh\<close> that shows \<open>cr\<close>, of size
  \<open>csw \<times> csh\<close>, through a scaling transform. \<^verbatim>\<open>1.0 * csw\<close> is \<open>csw\<close> as a double, which
  \<open>float_div\<close> takes of its operands anyway.
\<close>

definition scaled :: "render \<Rightarrow> int \<Rightarrow> int \<Rightarrow> int \<Rightarrow> int \<Rightarrow> render" where
  "scaled cr csw csh cdw cdh =
     blit (Render cdw cdh False False
             (Some (float_div (1 * of_int csw) (of_int cdw), 0, 0,
                    float_div (1 * of_int csh) (of_int cdh)))
             (Some (float_div (1 * of_int cdw) (of_int csw), 0, 0,
                    float_div (1 * of_int cdh) (of_int csh))) [])
       cr (0, 0)"

text \<open>
  Lines 385-422, the body of \<^verbatim>\<open>if csw != cdw or csh != cdh\<close>: tile if \<^verbatim>\<open>self.tile\<close> is
  set, then scale if the sizes still differ.
\<close>

definition scale_or_tile :: "frame \<Rightarrow> int \<Rightarrow> int \<Rightarrow> int \<Rightarrow> int \<Rightarrow> render \<Rightarrow> render" where
  "scale_or_tile self csw csh cdw cdh cr =
     (let (csw, csh, cr) =
            (if self_tile self \<noteq> Tile_False then
               (let (xtiles, ytiles, ctw, cth) = tiles self csw csh cdw cdh
                in (ctw, cth, tiled cr csw csh xtiles ytiles ctw cth))
             else (csw, csh, cr))
      in if csw \<noteq> cdw \<or> csh \<noteq> cdh then scaled cr csw csh cdw cdh else cr)"

text \<open>
  Lines 331-426: \<^verbatim>\<open>draw(x0, x1, y0, y1)\<close> of \<^verbatim>\<open>Frame.render\<close>, with the variables of the
  enclosing scope (\<^verbatim>\<open>self\<close>, \<^verbatim>\<open>sw\<close>, \<^verbatim>\<open>sh\<close>, \<^verbatim>\<open>dw\<close>, \<^verbatim>\<open>dh\<close>) as parameters and the render
  \<^verbatim>\<open>rv\<close> passed through.
\<close>

definition render_draw ::
  "frame \<Rightarrow> int \<Rightarrow> int \<Rightarrow> int \<Rightarrow> int \<Rightarrow> int \<Rightarrow> int \<Rightarrow> int \<Rightarrow> int \<Rightarrow> render \<Rightarrow> render" where
  "render_draw self sw sh dw dh x0 x1 y0 y1 rv =
     (let (dx0, sx0) = (if x0 \<ge> 0 then (x0, x0) else (dw + x0, sw + x0));
          (dx1, sx1) = (if x1 > 0 then (x1, x1) else (dw + x1, sw + x1));
          (dy0, sy0) = (if y0 \<ge> 0 then (y0, y0) else (dh + y0, sh + y0));
          (dy1, sy1) = (if y1 > 0 then (y1, y1) else (dh + y1, sh + y1))
      in if sx0 = sx1 \<or> sy0 = sy1 then rv
         else
           (let csw = sx1 - sx0;
                csh = sy1 - sy0;
                cdw = dx1 - dx0;
                cdh = dy1 - dy0
            in if csw \<le> 0 \<or> csh \<le> 0 \<or> cdh \<le> 0 \<or> cdw \<le> 0 then rv
               else
                 (let cr = Subsurface sx0 sy0 csw csh;
                      cr = (if csw \<noteq> cdw \<or> csh \<noteq> cdh
                            then scale_or_tile self csw csh cdw cdh cr else cr)
                  in blit rv cr (dx0, dy0))))"

subsection \<open>Frame.draw_pattern\<close>

text \<open>
  Lines 435-463. The callback \<open>draw\<close> acts on a state \<open>s\<close> (the render or surface it
  draws into); \<^verbatim>\<open>if top:\<close> and its like are tests for non-zero.
\<close>

definition draw_pattern ::
  "(int \<Rightarrow> int \<Rightarrow> int \<Rightarrow> int \<Rightarrow> 's \<Rightarrow> 's) \<Rightarrow> int \<Rightarrow> int \<Rightarrow> int \<Rightarrow> int \<Rightarrow> 's \<Rightarrow> 's" where
  "draw_pattern draw left top' right bottom s =
     (let s = (if top' \<noteq> 0 then
                 (let s = (if left \<noteq> 0 then draw 0 left 0 top' s else s);
                      s = draw left (- right) 0 top' s
                  in if right \<noteq> 0 then draw (- right) 0 0 top' s else s)
               else s);
          s = (if left \<noteq> 0 then draw 0 left top' (- bottom) s else s);
          s = draw left (- right) top' (- bottom) s;
          s = (if right \<noteq> 0 then draw (- right) 0 top' (- bottom) s else s)
      in if bottom \<noteq> 0 then
           (let s = (if left \<noteq> 0 then draw 0 left (- bottom) 0 s else s);
                s = draw left (- right) (- bottom) 0 s
            in if right \<noteq> 0 then draw (- right) 0 (- bottom) 0 s else s)
         else s)"

subsection \<open>Frame.sw_render\<close>

text \<open>
  Lines 521-556, the body of \<^verbatim>\<open>if dstsize != srcsize\<close> in the \<^verbatim>\<open>draw\<close> of
  \<^verbatim>\<open>Frame.sw_render\<close>. The tiles are blitted for \<open>y\<close> in \<^verbatim>\<open>range(0, ytiles)\<close> and, inside,
  \<open>x\<close> in \<^verbatim>\<open>range(0, xtiles)\<close>. \<^verbatim>\<open>srcsize\<close> is reassigned in the \<^verbatim>\<open>else\<close> branch of
  \<^verbatim>\<open>if self.tile is True\<close> only.
\<close>

definition sw_scale_or_tile ::
  "frame \<Rightarrow> int \<times> int \<Rightarrow> int \<times> int \<Rightarrow> surface \<Rightarrow> surface" where
  "sw_scale_or_tile self srcsize dstsize surf =
     (let (srcsize, surf) =
            (if self_tile self \<noteq> Tile_False then
               (let (tilew, tileh) = srcsize;
                    (dstw, dsth) = dstsize;
                    xtiles = max 1 (dstw div tilew + (if dstw mod tilew \<noteq> 0 then 1 else 0));
                    ytiles = max 1 (dsth div tileh + (if dsth mod tileh \<noteq> 0 then 1 else 0));
                    (xtiles, ytiles) =
                      (if (dstw mod tilew \<noteq> 0 \<or> dsth mod tileh \<noteq> 0)
                          \<and> self_tile self = Tile_Integer
                       then
                         ((if float_div (of_int (dstw mod tilew)) (of_int tilew)
                                < self_tile_ratio self
                           then max 1 (xtiles - 1) else xtiles),
                          (if float_div (of_int (dsth mod tileh)) (of_int tileh)
                                < self_tile_ratio self
                           then max 1 (ytiles - 1) else ytiles))
                       else (xtiles, ytiles));
                    surf2 = foldl (\<lambda>surf2 (y, x). surface_blit surf2 surf (x * tilew, y * tileh))
                              (Surface (tilew * xtiles) (tileh * ytiles) [])
                              (List.product [0..ytiles - 1] [0..xtiles - 1])
                in if self_tile self = Tile_True
                   then (srcsize, Sub surf2 0 0 dstw dsth)
                   else ((tilew * xtiles, tileh * ytiles), surf2))
             else (srcsize, surf))
      in if dstsize \<noteq> srcsize then Transform_scale surf dstsize else surf)"

text \<open>
  Lines 472-559: \<^verbatim>\<open>draw(x0, x1, y0, y1)\<close> of \<^verbatim>\<open>Frame.sw_render\<close>; \<open>sw \<times> sh\<close> is the size
  of the source texture and \<open>dest\<close> the surface drawn into.
\<close>

definition sw_render_draw ::
  "frame \<Rightarrow> int \<Rightarrow> int \<Rightarrow> int \<Rightarrow> int \<Rightarrow> int \<Rightarrow> int \<Rightarrow> int \<Rightarrow> int \<Rightarrow> surface \<Rightarrow> surface" where
  "sw_render_draw self sw sh dw dh x0 x1 y0 y1 dest =
     (let (dx0, sx0) = (if x0 \<ge> 0 then (x0, x0) else (dw + x0, sw + x0));
          (dx1, sx1) = (if x1 > 0 then (x1, x1) else (dw + x1, sw + x1));
          (dy0, sy0) = (if y0 \<ge> 0 then (y0, y0) else (dh + y0, sh + y0));
          (dy1, sy1) = (if y1 > 0 then (y1, y1) else (dh + y1, sh + y1))
      in if sx0 = sx1 \<or> sy0 = sy1 \<or> dx1 \<le> dx0 \<or> dy1 \<le> dy0 then dest
         else
           (let srcsize = (sx1 - sx0, sy1 - sy0);
                dstsize = (dx1 - dx0, dy1 - dy0);
                surf = Source_subsurface sx0 sy0 (fst srcsize) (snd srcsize);
                surf = (if dstsize \<noteq> srcsize
                        then sw_scale_or_tile self srcsize dstsize surf else surf)
            in surface_blit dest surf (dx0, dy0)))"

text \<open>
  Lines 465-568. \<open>source_size\<close> is \<^verbatim>\<open>source.get_size()\<close> of the texture made from the
  child's render.
\<close>

definition sw_render ::
  "frame \<Rightarrow> int \<times> int \<Rightarrow> int \<Rightarrow> int \<Rightarrow> int \<Rightarrow> int \<Rightarrow> int \<Rightarrow> int \<Rightarrow> render" where
  "sw_render self source_size dw dh left top' right bottom =
     (let (sw, sh) = source_size;
          dest = Surface dw dh [];
          rv = draw_pattern (sw_render_draw self sw sh dw dh) left top' right bottom dest
      in blit (new_Render dw dh) (Texture rv) (0, 0))"

subsection \<open>Frame.render\<close>

text \<open>
  Lines 284-433, for whole-number sizes (\<^verbatim>\<open>int(width)\<close> is then \<open>width\<close>). The style
  gives \<open>xminimum\<close> and \<open>yminimum\<close>; \<open>crend_size\<close> is the size of the child's render,
  \<open>source_size\<close> that of its texture, and \<open>renderer_sw\<close> says whether
  \<^verbatim>\<open>renpy.display.draw.info["renderer"]\<close> is \<^verbatim>\<open>"sw"\<close>. The enlargement of the size passed on
  to the child (lines 296-300) only acts through \<open>crend_size\<close>. The property
  \<^verbatim>\<open>pixel_perfect\<close> and the dependency on the child's render are not recorded.
\<close>

definition render ::
  "frame \<Rightarrow> int \<Rightarrow> int \<Rightarrow> int \<times> int \<Rightarrow> int \<times> int \<Rightarrow> bool \<Rightarrow> int \<Rightarrow> int \<Rightarrow> render" where
  "render self xminimum yminimum crend_size source_size renderer_sw width height =
     (let width = max xminimum width;
          height = max yminimum height;
          dw = width;
          dh = height;
          (sw, sh) = crend_size;
          (left, top', right, bottom) = render_borders self sw sh dw dh
      in if renderer_sw then sw_render self source_size dw dh left top' right bottom
         else draw_pattern (render_draw self sw sh dw dh) left top' right bottom (new_Render dw dh))"

subsection \<open>The grid of destination rectangles\<close>

text \<open>
  The calls \<^verbatim>\<open>draw(x0, x1, y0, y1)\<close> that \<^verbatim>\<open>draw_pattern\<close> makes, in order.
\<close>

definition cells :: "int \<Rightarrow> int \<Rightarrow> int \<Rightarrow> int \<Rightarrow> (int \<times> int \<times> int \<times> int) list" where
  "cells left top' right bottom =
     draw_pattern (\<lambda>x0 x1 y0 y1 acc. acc @ [(x0, x1, y0, y1)]) left top' right bottom []"

text \<open>
  The destination side of lines 337-366: the rectangle \<open>(dx0, dx1, dy0, dy1)\<close> that a
  call of \<^verbatim>\<open>draw\<close> addresses in a destination of size \<open>dw \<times> dh\<close>.
\<close>

definition dest_rect :: "int \<Rightarrow> int \<Rightarrow> int \<times> int \<times> int \<times> int \<Rightarrow> int \<times> int \<times> int \<times> int" where
  "dest_rect dw dh c =
     (case c of (x0, x1, y0, y1) \<Rightarrow>
        (if x0 \<ge> 0 then x0 else dw + x0,
         if x1 > 0 then x1 else dw + x1,
         if y0 \<ge> 0 then y0 else dh + y0,
         if y1 > 0 then y1 else dh + y1))"

text \<open>
  The source side of the same lines: the rectangle \<open>(sx0, sx1, sy0, sy1)\<close> in a source of
  size \<open>sw \<times> sh\<close>.
\<close>

definition source_rect :: "int \<Rightarrow> int \<Rightarrow> int \<times> int \<times> int \<times> int \<Rightarrow> int \<times> int \<times> int \<times> int" where
  "source_rect sw sh c =
     (case c of (x0, x1, y0, y1) \<Rightarrow>
        (if x0 \<ge> 0 then x0 else sw + x0,
         if x1 > 0 then x1 else sw + x1,
         if y0 \<ge> 0 then y0 else sh + y0,
         if y1 > 0 then y1 else sh + y1))"

definition area :: "int \<times> int \<times> int \<times> int \<Rightarrow> int" where
  "area r = (case r of (dx0, dx1, dy0, dy1) \<Rightarrow> (dx1 - dx0) * (dy1 - dy0))"

text \<open>The pixels of a rectangle, and whether two rectangles share one.\<close>

definition pixels :: "int \<times> int \<times> int \<times> int \<Rightarrow> (int \<times> int) set" where
  "pixels r = (case r of (dx0, dx1, dy0, dy1) \<Rightarrow> {dx0..<dx1} \<times> {dy0..<dy1})"

definition overlap :: "int \<times> int \<times> int \<times> int \<Rightarrow> int \<times> int \<times> int \<times> int \<Rightarrow> bool" where
  "overlap r q =
     (case r of (a0, a1, b0, b1) \<Rightarrow> case q of (c0, c1, d0, d1) \<Rightarrow>
        max a0 c0 < min a1 c1 \<and> max b0 d0 < min b1 d1)"

fun no_overlap :: "(int \<times> int \<times> int \<times> int) list \<Rightarrow> bool" where
  "no_overlap [] = True"
| "no_overlap (r # rs) = (list_all (\<lambda>q. \<not> overlap r q) rs \<and> no_overlap rs)"

text \<open>
  The rectangle that a child of a render covers, from its offset and its size, and the
  children that one call \<^verbatim>\<open>draw(x0, x1, y0, y1)\<close> of \<^verbatim>\<open>Frame.render\<close> adds to a render.
\<close>

definition blit_rect :: "render \<times> int \<times> int \<Rightarrow> int \<times> int \<times> int \<times> int" where
  "blit_rect b =
     (case b of (cr, x, y) \<Rightarrow> (x, x + fst (get_size cr), y, y + snd (get_size cr)))"

definition drawn ::
  "frame \<Rightarrow> int \<Rightarrow> int \<Rightarrow> int \<Rightarrow> int \<Rightarrow> int \<times> int \<times> int \<times> int \<Rightarrow> (render \<times> int \<times> int) list" where
  "drawn self sw sh dw dh c =
     (case c of (x0, x1, y0, y1) \<Rightarrow>
        blits (render_draw self sw sh dw dh x0 x1 y0 y1 (new_Render dw dh)))"

subsection \<open>Solid.render\<close>

text \<open>
  A colour is the 4-tuple that \<^verbatim>\<open>renpy.easy.color\<close> returns; as a non-empty tuple it is
  true in \<^verbatim>\<open>self.color or self.style.color\<close>. Sizes are rationals (an \<^verbatim>\<open>int\<close> or a float).
  The render made by
  \<^verbatim>\<open>Solid.render\<close> holds textures of \<^verbatim>\<open>solid_texture(width, height, color)\<close>.
\<close>

type_synonym color = "int \<times> int \<times> int \<times> int"

datatype texture = Solid_texture rat rat color

record solid_render =
  sr_width :: rat
  sr_height :: rat
  sr_forward :: "matrix2d option"
  sr_reverse :: "matrix2d option"
  sr_blits :: "(texture \<times> rat \<times> rat) list"

text \<open>
  Lines 67-80: the width and height tested at line 82, from the minimums
  \<open>(xminimum, yminimum)\<close> returned by \<^verbatim>\<open>xyminimums\<close> and the pair \<open>(minw, minh)\<close>
  returned by \<^verbatim>\<open>draw_to_virt.transform(1, 1)\<close>.
\<close>

definition solid_size :: "rat \<Rightarrow> rat \<Rightarrow> rat \<Rightarrow> rat \<Rightarrow> rat \<Rightarrow> rat \<Rightarrow> rat \<times> rat" where
  "solid_size xminimum yminimum minw minh width height =
     (let width = max xminimum width;
          height = max yminimum height
      in if width \<noteq> 0 \<and> height \<noteq> 0 then (max width minw, max height minh)
         else (width, height))"

text \<open>
  Lines 66-96. \<open>self_color\<close> is \<^verbatim>\<open>self.color\<close> and \<open>style_color\<close> is
  \<^verbatim>\<open>self.style.color\<close>, each possibly \<^verbatim>\<open>None\<close>.
\<close>

definition solid_render ::
  "color option \<Rightarrow> color option \<Rightarrow> rat \<Rightarrow> rat \<Rightarrow> rat \<Rightarrow> rat \<Rightarrow> rat \<Rightarrow> rat \<Rightarrow> solid_render" where
  "solid_render self_color style_color xminimum yminimum minw minh width height =
     (let color = (case self_color of Some c \<Rightarrow> Some c | None \<Rightarrow> style_color);
          rv = \<lparr>sr_width = max xminimum width, sr_height = max yminimum height,
                sr_forward = None, sr_reverse = None, sr_blits = []\<rparr>;
          (width, height) = solid_size xminimum yminimum minw minh width height
      in case color of
           None \<Rightarrow> rv
         | Some c \<Rightarrow>
             if width \<le> 0 \<or> height \<le> 0 then rv
             else
               (let SIZE = 10
                in if width < SIZE \<or> height < SIZE
                   then rv\<lparr>sr_blits := sr_blits rv @ [(Solid_texture width height c, 0, 0)]\<rparr>
                   else rv\<lparr>sr_forward :=
                             Some (float_div (1 * SIZE) width, 0, 0, float_div (1 * SIZE) height),
                           sr_reverse :=
                             Some (float_div (1 * width) SIZE, 0, 0, float_div (1 * height) SIZE),
                           sr_blits := sr_blits rv @ [(Solid_texture SIZE SIZE c, 0, 0)]\<rparr>))"

subsection \<open>Example configurations\<close>

text \<open>
  \<^verbatim>\<open>Frame("frame.png", 10, 10)\<close> of the docstring, the same with \<^verbatim>\<open>tile=True\<close> and with
  \<^verbatim>\<open>tile="integer"\<close> (ratio 0.5 and 0.51), frames with borders of one pixel and with no
  borders, an object persisted with \<^verbatim>\<open>xborder = 5\<close>, \<^verbatim>\<open>yborder = 3\<close>, the whole of a
  10 by 10 source as a cell, and the colour \<^verbatim>\<open>"#fff"\<close>.
\<close>

definition frame_10 :: frame where
  "frame_10 = Frame_init (Left_int 10) (Some 10) None None 0 0 Tile_False (1 / 2)"

definition frame_1 :: frame where
  "frame_1 = Frame_init (Left_int 1) (Some 1) None None 0 0 Tile_False (1 / 2)"

definition frame_left_1 :: frame where
  "frame_left_1 = Frame_init (Left_int 1) (Some 0) (Some 0) (Some 0) 0 0 Tile_False (1 / 2)"

definition frame_tile :: frame where
  "frame_tile = Frame_init Left_None None None None 0 0 Tile_True (1 / 2)"

definition frame_integer :: frame where
  "frame_integer = Frame_init Left_None None None None 0 0 Tile_Integer (1 / 2)"

definition frame_integer_51 :: frame where
  "frame_integer_51 = Frame_init Left_None None None None 0 0 Tile_Integer (51 / 100)"

definition cell_10 :: render where
  "cell_10 = Subsurface 0 0 10 10"

definition source_10 :: surface where
  "source_10 = Source_subsurface 0 0 10 10"

definition white :: color where
  "white = (255, 255, 255, 255)"

definition frame_legacy :: frame where
  "frame_legacy =
     (Frame_init Left_None None None None 0 0 Tile_False (1 / 2))
       \<lparr>self_xborder := Some 5, self_yborder := Some 3\<rparr>"

section \<open>Properties\<close>

subsection \<open>Evaluating the rounding\<close>

text \<open>
  The recursion of \<open>ilog2\<close> as two conditional equations, and floors and ceilings of
  quotients of numerals: with them the simplifier computes \<open>float_round\<close> and \<open>float_div\<close>
  at given numbers.
\<close>

lemma ilog2_small: "n < 2 \<Longrightarrow> ilog2 n = 0"
  by (simp add: ilog2.simps)

lemma ilog2_step: "2 \<le> n \<Longrightarrow> ilog2 n = 1 + ilog2 (n div 2)"
  by (subst ilog2.simps) simp

lemma floor_numeral_div: "\<lfloor>(numeral a :: rat) / numeral b\<rfloor> = numeral a div numeral b"
  using floor_divide_of_int_eq [of "numeral a" "numeral b", where ?'a = rat] by simp

lemma ceiling_numeral_div:
  "\<lceil>(numeral a :: rat) / numeral b\<rceil> = - (- numeral a div numeral b)"
  using ceiling_divide_eq_div [of "numeral a" "numeral b", where ?'a = rat] by simp

lemmas float_eval = float_div_def float_round_def floor_log2_def pow2_def round_half_even_def
  ilog2_small ilog2_step floor_numeral_div ceiling_numeral_div Let_def

text \<open>
  The doubles that the examples below need: 0.5 and 0.51 as tile ratios, the quotients
  of the tile test, and the entries of the scaling transforms. The numerators and
  denominators are those that Python's \<^verbatim>\<open>float.as_integer_ratio\<close> gives.
\<close>

lemma float_round_examples:
  "float_round (1 / 2) = 1 / 2"
  "float_round (51 / 100) = 2296835809958953 / 4503599627370496"
  by (simp_all add: float_eval)

lemma float_div_examples:
  "float_div 0 10 = 0"
  "float_div 5 10 = 1 / 2"
  "float_div 10 10 = 1"
  "float_div 10 20 = 1 / 2"
  "float_div 20 10 = 2"
  "float_div 20 15 = 6004799503160661 / 4503599627370496"
  "float_div 15 20 = 3 / 4"
  "float_div 10 15 = 6004799503160661 / 9007199254740992"
  "float_div 15 10 = 3 / 2"
  "float_div 49999999999999999 100000000000000000 = 1 / 2"
  by (simp_all add: float_eval)


subsection \<open>Arithmetic of the proportional split\<close>

text \<open>
  Two remainders modulo \<open>n\<close> add up to less than two multiples of \<open>n\<close>, for either sign
  of \<open>n\<close>.
\<close>

lemma mod_sum_div_range:
  fixes x y n :: int
  assumes "n \<noteq> 0"
  shows "0 \<le> (x mod n + y mod n) div n \<and> (x mod n + y mod n) div n \<le> 1"
proof (cases "0 < n")
  case True
  have a: "0 \<le> x mod n" "x mod n < n" "0 \<le> y mod n" "y mod n < n"
    using True by simp_all
  have "0 \<le> x mod n + y mod n"
    using a by linarith
  then have "0 \<le> (x mod n + y mod n) div n"
    using True by (simp only: pos_imp_zdiv_nonneg_iff)
  moreover have "(x mod n + y mod n) div n \<le> (n - 1 + n) div n"
    using a True by (intro zdiv_mono1) linarith+
  moreover have "(n - 1 + n) div n = (n - 1) div n + 1"
    using True by (intro div_add_self2) simp
  moreover have "(n - 1) div n = 0"
    using True by (intro div_pos_pos_trivial) simp_all
  ultimately show ?thesis by simp
next
  case False
  with assms have neg: "n < 0" by simp
  have a: "x mod n \<le> 0" "n < x mod n" "y mod n \<le> 0" "n < y mod n"
    using neg by simp_all
  have "x mod n + y mod n \<le> 0"
    using a by linarith
  then have "0 \<le> (x mod n + y mod n) div n"
    using neg by (simp only: neg_imp_zdiv_nonneg_iff)
  moreover have "(x mod n + y mod n) div n \<le> (n + 1 + n) div n"
    using a neg by (intro zdiv_mono1_neg) linarith+
  moreover have "(n + 1 + n) div n = (n + 1) div n + 1"
    using neg by (intro div_add_self2) simp
  moreover have "(n + 1) div n = 0"
    using neg by (intro div_neg_neg_trivial) simp_all
  ultimately show ?thesis by simp
qed

text \<open>
  Splitting \<open>k\<close> in the proportion \<open>a : b\<close> with two floor divisions loses at most one.
\<close>

lemma split_floor_bounds:
  fixes a b k n :: int
  assumes "n = a + b" and "n \<noteq> 0"
  shows "k - 1 \<le> a * k div n + b * k div n \<and> a * k div n + b * k div n \<le> k"
proof -
  have e: "(a * k + b * k) div n =
      a * k div n + b * k div n + (a * k mod n + b * k mod n) div n"
    by (rule div_add1_eq)
  have "a * k + b * k = k * n"
    using assms(1) by (simp add: algebra_simps)
  then have "(a * k + b * k) div n = k"
    using assms(2) by simp
  with e mod_sum_div_range [OF assms(2), of "a * k" "b * k"] show ?thesis
    by linarith
qed

subsection \<open>The clamped borders, component by component\<close>

lemma dest_left_eq:
  "dest_left self sw sh dw dh =
     (if xb self sw dw \<noteq> 0 \<and> bw self \<noteq> 0
      then self_left self * xb self sw dw div bw self else 0)"
  by (simp add: dest_left_def render_borders_def xb_def bw_def Let_def split: prod.splits)

lemma dest_right_eq:
  "dest_right self sw sh dw dh =
     (if xb self sw dw \<noteq> 0 \<and> bw self \<noteq> 0
      then self_right self * xb self sw dw div bw self else 0)"
  by (simp add: dest_right_def render_borders_def xb_def bw_def Let_def split: prod.splits)

lemma dest_top_eq:
  "dest_top self sw sh dw dh =
     (if yb self sh dh \<noteq> 0 \<and> bh self \<noteq> 0
      then self_top self * yb self sh dh div bh self else 0)"
  by (simp add: dest_top_def render_borders_def yb_def bh_def Let_def split: prod.splits)

lemma dest_bottom_eq:
  "dest_bottom self sw sh dw dh =
     (if yb self sh dh \<noteq> 0 \<and> bh self \<noteq> 0
      then self_bottom self * yb self sh dh div bh self else 0)"
  by (simp add: dest_bottom_def render_borders_def yb_def bh_def Let_def split: prod.splits)

lemma horizontal_sum_bounds:
  assumes "xb self sw dw \<noteq> 0" and "bw self \<noteq> 0"
  shows "xb self sw dw - 1 \<le> dest_left self sw sh dw dh + dest_right self sw sh dw dh"
    and "dest_left self sw sh dw dh + dest_right self sw sh dw dh \<le> xb self sw dw"
  using assms split_floor_bounds [of "bw self" "self_left self" "self_right self" "xb self sw dw"]
  by (simp_all add: dest_left_eq dest_right_eq bw_def)

lemma vertical_sum_bounds:
  assumes "yb self sh dh \<noteq> 0" and "bh self \<noteq> 0"
  shows "yb self sh dh - 1 \<le> dest_top self sw sh dw dh + dest_bottom self sw sh dw dh"
    and "dest_top self sw sh dw dh + dest_bottom self sw sh dw dh \<le> yb self sh dh"
  using assms split_floor_bounds [of "bh self" "self_top self" "self_bottom self" "yb self sh dh"]
  by (simp_all add: dest_top_eq dest_bottom_eq bh_def)

text \<open>
  The clamped borders as a tuple; for non-negative insets and a source of at least 2 by
  2 they are non-negative and, on each axis, add up to at most the combined border.
\<close>

lemma render_borders_eq:
  "render_borders self sw sh dw dh =
     (dest_left self sw sh dw dh, dest_top self sw sh dw dh,
      dest_right self sw sh dw dh, dest_bottom self sw sh dw dh)"
  by (simp add: dest_left_def dest_top_def dest_right_def dest_bottom_def split: prod.splits)

lemma borders_nonneg:
  assumes "0 \<le> self_left self" and "0 \<le> self_top self"
    and "0 \<le> self_right self" and "0 \<le> self_bottom self"
    and "2 \<le> sw" and "2 \<le> sh" and "0 \<le> dw" and "0 \<le> dh"
  shows "0 \<le> dest_left self sw sh dw dh" and "0 \<le> dest_top self sw sh dw dh"
    and "0 \<le> dest_right self sw sh dw dh" and "0 \<le> dest_bottom self sw sh dw dh"
proof -
  have x: "0 \<le> xb self sw dw" and y: "0 \<le> yb self sh dh"
    and w: "0 \<le> bw self" and h: "0 \<le> bh self"
    using assms by (simp_all add: xb_def yb_def bw_def bh_def)
  show "0 \<le> dest_left self sw sh dw dh"
    using x w assms(1) by (simp add: dest_left_eq pos_imp_zdiv_nonneg_iff)
  show "0 \<le> dest_right self sw sh dw dh"
    using x w assms(3) by (simp add: dest_right_eq pos_imp_zdiv_nonneg_iff)
  show "0 \<le> dest_top self sw sh dw dh"
    using y h assms(2) by (simp add: dest_top_eq pos_imp_zdiv_nonneg_iff)
  show "0 \<le> dest_bottom self sw sh dw dh"
    using y h assms(4) by (simp add: dest_bottom_eq pos_imp_zdiv_nonneg_iff)
qed

lemma horizontal_sum_le:
  assumes "0 \<le> self_left self" and "0 \<le> self_right self" and "2 \<le> sw" and "0 \<le> dw"
  shows "dest_left self sw sh dw dh + dest_right self sw sh dw dh \<le> xb self sw dw"
proof (cases "xb self sw dw \<noteq> 0 \<and> bw self \<noteq> 0")
  case True
  then show ?thesis using horizontal_sum_bounds(2) [of self sw dw sh dh] by simp
next
  case False
  have "0 \<le> xb self sw dw"
    using assms by (simp add: xb_def bw_def)
  with False show ?thesis by (auto simp add: dest_left_eq dest_right_eq)
qed

lemma vertical_sum_le:
  assumes "0 \<le> self_top self" and "0 \<le> self_bottom self" and "2 \<le> sh" and "0 \<le> dh"
  shows "dest_top self sw sh dw dh + dest_bottom self sw sh dw dh \<le> yb self sh dh"
proof (cases "yb self sh dh \<noteq> 0 \<and> bh self \<noteq> 0")
  case True
  then show ?thesis using vertical_sum_bounds(2) [of self sh dh sw dw] by simp
next
  case False
  have "0 \<le> yb self sh dh"
    using assms by (simp add: yb_def bh_def)
  with False show ?thesis by (auto simp add: dest_top_eq dest_bottom_eq)
qed

lemmas frame_simps = Frame_init_def frame_10_def frame_1_def frame_left_1_def frame_tile_def
  frame_integer_def frame_integer_51_def frame_legacy_def float_round_examples

subsection \<open>Legacy upgrade\<close>

text \<open>
  C10. A frame persisted at a version below 2 with the symmetric borders \<open>xborder = x\<close>,
  \<open>yborder = y\<close> is upgraded by \<^verbatim>\<open>after_upgrade\<close> without error to a frame with
  \<open>left = right = x\<close> and \<open>top = bottom = y\<close>; the tile settings are untouched.
\<close>

theorem after_upgrade_legacy:
  assumes "version < 2" and "self_xborder self = Some x" and "self_yborder self = Some y"
  shows "\<exists>self'. after_upgrade self version = Inr self' \<and>
           self_left self' = x \<and> self_right self' = x \<and>
           self_top self' = y \<and> self_bottom self' = y \<and>
           self_tile self' = self_tile self \<and> self_tile_ratio self' = self_tile_ratio self"
  using assms by (simp add: after_upgrade_def)

text \<open>The instance \<open>xborder = 5\<close>, \<open>yborder = 3\<close>, persisted at version 1.\<close>

theorem after_upgrade_legacy_witness:
  "(1::int) < 2 \<and> self_xborder frame_legacy = Some 5 \<and> self_yborder frame_legacy = Some 3 \<and>
   (\<exists>self'. after_upgrade frame_legacy 1 = Inr self' \<and>
           self_left self' = 5 \<and> self_right self' = 5 \<and>
           self_top self' = 3 \<and> self_bottom self' = 3)"
proof -
  have v: "(1::int) < 2" by simp
  have x: "self_xborder frame_legacy = Some 5" by (simp add: frame_legacy_def)
  have y: "self_yborder frame_legacy = Some 3" by (simp add: frame_legacy_def)
  from after_upgrade_legacy [OF v x y] v x y show ?thesis by blast
qed

subsection \<open>Bound on the clamped borders\<close>

text \<open>
  C5. For non-negative insets, a source of width at least 2 and a destination of
  non-negative width, the clamped left and right borders add up to at most
  \<open>min (left + right) (sw - 2) dw\<close>, and both are 0 when that minimum or the sum of the
  insets is 0. The same holds for top and bottom with the heights.
\<close>

theorem borders_within_min:
  assumes "0 \<le> self_left self" and "0 \<le> self_top self"
    and "0 \<le> self_right self" and "0 \<le> self_bottom self"
  shows "(2 \<le> sw \<and> 0 \<le> dw \<longrightarrow>
            dest_left self sw sh dw dh + dest_right self sw sh dw dh
              \<le> min (self_left self + self_right self) (min (sw - 2) dw)
          \<and> (min (self_left self + self_right self) (min (sw - 2) dw) = 0
                \<or> self_left self + self_right self = 0
              \<longrightarrow> dest_left self sw sh dw dh = 0 \<and> dest_right self sw sh dw dh = 0))
       \<and> (2 \<le> sh \<and> 0 \<le> dh \<longrightarrow>
            dest_top self sw sh dw dh + dest_bottom self sw sh dw dh
              \<le> min (self_top self + self_bottom self) (min (sh - 2) dh)
          \<and> (min (self_top self + self_bottom self) (min (sh - 2) dh) = 0
                \<or> self_top self + self_bottom self = 0
              \<longrightarrow> dest_top self sw sh dw dh = 0 \<and> dest_bottom self sw sh dw dh = 0))"
proof -
  have h: "2 \<le> sw \<and> 0 \<le> dw \<longrightarrow>
           dest_left self sw sh dw dh + dest_right self sw sh dw dh
           \<le> min (self_left self + self_right self) (min (sw - 2) dw)"
    using horizontal_sum_le [OF assms(1,3), of sw dw sh dh] by (simp add: xb_def bw_def)
  have v: "2 \<le> sh \<and> 0 \<le> dh \<longrightarrow>
           dest_top self sw sh dw dh + dest_bottom self sw sh dw dh
           \<le> min (self_top self + self_bottom self) (min (sh - 2) dh)"
    using vertical_sum_le [OF assms(2,4), of sh dh sw dw] by (simp add: yb_def bh_def)
  have hz: "min (self_left self + self_right self) (min (sw - 2) dw) = 0
           \<or> self_left self + self_right self = 0
         \<longrightarrow> dest_left self sw sh dw dh = 0 \<and> dest_right self sw sh dw dh = 0"
    by (auto simp add: dest_left_eq dest_right_eq xb_def bw_def)
  have vz: "min (self_top self + self_bottom self) (min (sh - 2) dh) = 0
           \<or> self_top self + self_bottom self = 0
         \<longrightarrow> dest_top self sw sh dw dh = 0 \<and> dest_bottom self sw sh dw dh = 0"
    by (auto simp add: dest_top_eq dest_bottom_eq yb_def bh_def)
  from h hz v vz show ?thesis by blast
qed

text \<open>
  Insets of 10 on a 15 by 15 source drawn at 100 by 100: the minimum is 13 and the
  borders are 6 and 6. On a 2 by 2 source the minimum is 0 and so are the borders.
\<close>

theorem borders_within_min_witness:
  "render_borders frame_10 15 15 100 100 = (6, 6, 6, 6)
   \<and> dest_left frame_10 15 15 100 100 + dest_right frame_10 15 15 100 100
        \<le> min (self_left frame_10 + self_right frame_10) (min (15 - 2) 100)
   \<and> min (self_left frame_10 + self_right frame_10) (min (15 - 2) 100) = 13
   \<and> min (self_left frame_10 + self_right frame_10) (min (2 - 2) 100) = 0
   \<and> dest_left frame_10 2 2 100 100 = 0 \<and> dest_right frame_10 2 2 100 100 = 0"
proof -
  have a: "0 \<le> self_left frame_10" "0 \<le> self_top frame_10"
      "0 \<le> self_right frame_10" "0 \<le> self_bottom frame_10"
    by (simp_all add: frame_simps)
  have m: "min (self_left frame_10 + self_right frame_10) (min (2 - 2) 100) = 0"
    by (simp add: frame_simps)
  have "render_borders frame_10 15 15 100 100 = (6, 6, 6, 6)"
    by (simp add: render_borders_def frame_simps)
  moreover have "min (self_left frame_10 + self_right frame_10) (min (15 - 2) 100) = 13"
    by (simp add: frame_simps)
  moreover note m
  moreover from borders_within_min [OF a, where sw = 15 and sh = 15 and dw = 100 and dh = 100]
  have "dest_left frame_10 15 15 100 100 + dest_right frame_10 15 15 100 100
        \<le> min (self_left frame_10 + self_right frame_10) (min (15 - 2) 100)"
    by simp
  moreover from borders_within_min [OF a, where sw = 2 and sh = 2 and dw = 100 and dh = 100] m
  have "dest_left frame_10 2 2 100 100 = 0 \<and> dest_right frame_10 2 2 100 100 = 0"
    by simp
  ultimately show ?thesis by blast
qed

subsection \<open>The proportional split\<close>

text \<open>
  The right border is computed like the left one, by its own floor division, and not
  as the rest of the combined border: with insets of 1 and 1 on a source 3 wide, the
  combined border is 1 and both borders are 0.
\<close>

theorem borders_split_counterexample:
  "0 < xb frame_1 3 10 \<and> 0 < self_left frame_1 + self_right frame_1
   \<and> dest_left frame_1 3 3 10 10 = self_left frame_1 * xb frame_1 3 10
        div (self_left frame_1 + self_right frame_1)
   \<and> dest_right frame_1 3 3 10 10 \<noteq> xb frame_1 3 10 - dest_left frame_1 3 3 10 10
   \<and> dest_left frame_1 3 3 10 10 + dest_right frame_1 3 3 10 10 \<noteq> xb frame_1 3 10"
  by (simp add: dest_left_eq dest_right_eq xb_def bw_def frame_simps)

text \<open>
  C1, amended. For insets and sizes that are integers, as the destination size always
  is when tiling is on (line 290), and with \<open>xb = min (left + right) (sw - 2) dw\<close>: when
  \<open>xb > 0\<close> and \<open>left + right > 0\<close>, the borders are \<open>left * xb div (left + right)\<close> and
  \<open>right * xb div (left + right)\<close>, and their sum is \<open>xb\<close> or \<open>xb - 1\<close>; when \<open>xb = 0\<close>
  or \<open>left + right = 0\<close>, both are 0. The same holds for top and bottom. A fractional
  destination size, which can only come with tiling off, is not covered.
\<close>

theorem borders_split:
  "(0 < xb self sw dw \<and> 0 < bw self \<longrightarrow>
      dest_left self sw sh dw dh = self_left self * xb self sw dw div bw self
    \<and> dest_right self sw sh dw dh = self_right self * xb self sw dw div bw self
    \<and> xb self sw dw - 1 \<le> dest_left self sw sh dw dh + dest_right self sw sh dw dh
    \<and> dest_left self sw sh dw dh + dest_right self sw sh dw dh \<le> xb self sw dw)
   \<and> (xb self sw dw = 0 \<or> bw self = 0 \<longrightarrow>
      dest_left self sw sh dw dh = 0 \<and> dest_right self sw sh dw dh = 0)
   \<and> (0 < yb self sh dh \<and> 0 < bh self \<longrightarrow>
      dest_top self sw sh dw dh = self_top self * yb self sh dh div bh self
    \<and> dest_bottom self sw sh dw dh = self_bottom self * yb self sh dh div bh self
    \<and> yb self sh dh - 1 \<le> dest_top self sw sh dw dh + dest_bottom self sw sh dw dh
    \<and> dest_top self sw sh dw dh + dest_bottom self sw sh dw dh \<le> yb self sh dh)
   \<and> (yb self sh dh = 0 \<or> bh self = 0 \<longrightarrow>
      dest_top self sw sh dw dh = 0 \<and> dest_bottom self sw sh dw dh = 0)"
proof -
  have h: "0 < xb self sw dw \<and> 0 < bw self \<longrightarrow>
      dest_left self sw sh dw dh = self_left self * xb self sw dw div bw self
    \<and> dest_right self sw sh dw dh = self_right self * xb self sw dw div bw self
    \<and> xb self sw dw - 1 \<le> dest_left self sw sh dw dh + dest_right self sw sh dw dh
    \<and> dest_left self sw sh dw dh + dest_right self sw sh dw dh \<le> xb self sw dw"
    using horizontal_sum_bounds [of self sw dw sh dh]
    by (simp add: dest_left_eq dest_right_eq)
  have v: "0 < yb self sh dh \<and> 0 < bh self \<longrightarrow>
      dest_top self sw sh dw dh = self_top self * yb self sh dh div bh self
    \<and> dest_bottom self sw sh dw dh = self_bottom self * yb self sh dh div bh self
    \<and> yb self sh dh - 1 \<le> dest_top self sw sh dw dh + dest_bottom self sw sh dw dh
    \<and> dest_top self sw sh dw dh + dest_bottom self sw sh dw dh \<le> yb self sh dh"
    using vertical_sum_bounds [of self sh dh sw dw]
    by (simp add: dest_top_eq dest_bottom_eq)
  have hz: "xb self sw dw = 0 \<or> bw self = 0 \<longrightarrow>
      dest_left self sw sh dw dh = 0 \<and> dest_right self sw sh dw dh = 0"
    by (auto simp add: dest_left_eq dest_right_eq)
  have vz: "yb self sh dh = 0 \<or> bh self = 0 \<longrightarrow>
      dest_top self sw sh dw dh = 0 \<and> dest_bottom self sw sh dw dh = 0"
    by (auto simp add: dest_top_eq dest_bottom_eq)
  from h hz v vz show ?thesis by blast
qed

text \<open>
  Insets of 10 on a 15 by 15 source drawn at 100 by 100 (combined border 13, borders 6
  and 6, sum 12), and on a 2 by 2 source (combined border 0).
\<close>

theorem borders_split_witness:
  "0 < xb frame_10 15 100 \<and> 0 < bw frame_10 \<and> xb frame_10 15 100 = 13
   \<and> dest_left frame_10 15 15 100 100 = self_left frame_10 * xb frame_10 15 100 div bw frame_10
   \<and> dest_right frame_10 15 15 100 100 = self_right frame_10 * xb frame_10 15 100 div bw frame_10
   \<and> xb frame_10 15 100 - 1 \<le> dest_left frame_10 15 15 100 100 + dest_right frame_10 15 15 100 100
   \<and> xb frame_10 2 100 = 0
   \<and> dest_left frame_10 2 2 100 100 = 0 \<and> dest_right frame_10 2 2 100 100 = 0"
proof -
  have p: "0 < xb frame_10 15 100 \<and> 0 < bw frame_10" and e: "xb frame_10 15 100 = 13"
    and z: "xb frame_10 2 100 = 0"
    by (simp_all add: xb_def bw_def frame_simps)
  from borders_split [of frame_10 15 100 15 100] p
  have "dest_left frame_10 15 15 100 100 = self_left frame_10 * xb frame_10 15 100 div bw frame_10
    \<and> dest_right frame_10 15 15 100 100 = self_right frame_10 * xb frame_10 15 100 div bw frame_10
    \<and> xb frame_10 15 100 - 1 \<le> dest_left frame_10 15 15 100 100 + dest_right frame_10 15 15 100 100"
    by blast
  moreover from borders_split [of frame_10 2 100 2 100] z
  have "dest_left frame_10 2 2 100 100 = 0 \<and> dest_right frame_10 2 2 100 100 = 0"
    by blast
  ultimately show ?thesis using p e z by blast
qed

subsection \<open>Tile counts\<close>

text \<open>
  Small integer ranges, the ceiling of a quotient as the code computes it, and the blits
  of the tiling loop as a list.
\<close>

lemma upto_small: "[0..0] = [0::int]" "[0..1] = [0, 1::int]" "[0..2] = [0, 1, 2::int]"
  by (simp_all add: upto.simps)

lemma ceiling_count:
  assumes "0 < (csw::int)"
  shows "\<lceil>(of_int cdw :: rat) / of_int csw\<rceil> = cdw div csw + (if cdw mod csw \<noteq> 0 then 1 else 0)"
proof -
  have "\<lceil>(of_int cdw :: rat) / of_int csw\<rceil> = - ((- cdw) div csw)"
    by (rule ceiling_divide_eq_div)
  also have "\<dots> = cdw div csw + (if cdw mod csw \<noteq> 0 then 1 else 0)"
    using assms by (simp add: zdiv_zminus1_eq_if)
  finally show ?thesis .
qed

lemma count_ge_1:
  assumes "0 < (csw::int)" and "0 < cdw"
  shows "1 \<le> cdw div csw + (if cdw mod csw \<noteq> 0 then 1 else 0)"
proof (cases "cdw mod csw = 0")
  case True
  then have "csw dvd cdw" by auto
  then have "csw \<le> cdw" using assms(2) by (rule zdvd_imp_le)
  then have "0 < cdw div csw" using assms(1) by (simp add: pos_imp_zdiv_pos_iff)
  then show ?thesis using True by simp
next
  case False
  have "0 \<le> cdw div csw" using assms by (simp add: pos_imp_zdiv_nonneg_iff)
  then show ?thesis using False by simp
qed

lemma count_covers:
  assumes "0 < (csw::int)"
  shows "cdw \<le> csw * (cdw div csw + (if cdw mod csw \<noteq> 0 then 1 else 0))"
proof -
  have e: "csw * (cdw div csw) + cdw mod csw = cdw" by simp
  have r: "cdw mod csw < csw" using assms by simp
  show ?thesis
  proof (cases "cdw mod csw = 0")
    case True
    with e show ?thesis by simp
  next
    case False
    have "cdw \<le> csw * (cdw div csw) + csw"
      using e r by linarith
    with False show ?thesis by (simp add: distrib_left)
  qed
qed

lemma foldl_blit:
  "foldl (\<lambda>newcr (x, y). blit newcr cr (f x y, g x y)) (Render w h xc yc fw rv cs) ps =
     Render w h xc yc fw rv (cs @ map (\<lambda>(x, y). (cr, f x y, g x y)) ps)"
  by (induction ps arbitrary: cs) (auto split: prod.splits)

lemma tiled_eq:
  "tiled cr csw csh xtiles ytiles ctw cth =
     Render ctw cth True True None None
       (map (\<lambda>(x, y). (cr, x * csw, y * csh)) (List.product [0..xtiles - 1] [0..ytiles - 1]))"
  using foldl_blit [of cr "\<lambda>x y. x * csw" "\<lambda>x y. y * csh" ctw cth True True None None "[]"]
  by (simp add: tiled_def)

lemma tiles_integer:
  assumes "self_tile self = Tile_Integer" and "cdw mod csw \<noteq> 0 \<or> cdh mod csh \<noteq> 0"
  shows "tiles self csw csh cdw cdh =
     (let xtiles = max 1 (cdw div csw + (if cdw mod csw \<noteq> 0 then 1 else 0));
          ytiles = max 1 (cdh div csh + (if cdh mod csh \<noteq> 0 then 1 else 0));
          xtiles = (if float_div (of_int (cdw mod csw)) (of_int csw) < self_tile_ratio self
                    then max 1 (xtiles - 1) else xtiles);
          ytiles = (if float_div (of_int (cdh mod csh)) (of_int csh) < self_tile_ratio self
                    then max 1 (ytiles - 1) else ytiles)
      in (xtiles, ytiles, csw * xtiles, csh * ytiles))"
  using assms by (simp add: tiles_def Let_def)

lemma tiles_plain:
  assumes "self_tile self \<noteq> Tile_Integer \<or> (cdw mod csw = 0 \<and> cdh mod csh = 0)"
  shows "tiles self csw csh cdw cdh =
     (max 1 (cdw div csw + (if cdw mod csw \<noteq> 0 then 1 else 0)),
      max 1 (cdh div csh + (if cdh mod csh \<noteq> 0 then 1 else 0)), cdw, cdh)"
  using assms by (auto simp add: tiles_def Let_def)

lemma not_multiple:
  assumes "(cdw::int) mod csw \<noteq> 0"
  shows "csw * n \<noteq> cdw"
  using assms by auto

text \<open>
  The leftover fraction is compared as a double, and the quotient of two integers is
  rounded when it is made: for a source extent of \<open>10 ^ 17\<close> and a destination extent
  of \<open>15 * 10 ^ 16 - 1\<close> the fraction is below one half, but the remainder
  49999999999999999 becomes the double \<open>5 * 10 ^ 16\<close> and the quotient the double 0.5,
  which is not below the ratio 0.5: two tiles are kept where the exact fraction would
  drop one.
\<close>

theorem integer_tie_break_counterexample:
  "self_tile frame_integer = Tile_Integer \<and> self_tile_ratio frame_integer = 1 / 2
   \<and> (149999999999999999 :: int) mod 100000000000000000 = 49999999999999999
   \<and> (49999999999999999 :: rat) / 100000000000000000 < 1 / 2
   \<and> \<lceil>(149999999999999999 :: rat) / 100000000000000000\<rceil> = 2
   \<and> tiles frame_integer 100000000000000000 10 149999999999999999 10 =
        (2, 1, 200000000000000000, 10)
   \<and> fst (tiles frame_integer 100000000000000000 10 149999999999999999 10) \<noteq> max 1 (2 - 1)"
proof -
  have t: "tiles frame_integer 100000000000000000 10 149999999999999999 10 =
        (2, 1, 200000000000000000, 10)"
    by (simp add: tiles_def frame_simps float_div_examples)
  have c: "\<lceil>(149999999999999999 :: rat) / 100000000000000000\<rceil> = 2"
    by (simp add: ceiling_numeral_div)
  have i: "self_tile frame_integer = Tile_Integer \<and> self_tile_ratio frame_integer = 1 / 2"
    by (simp add: frame_simps)
  have m: "(149999999999999999 :: int) mod 100000000000000000 = 49999999999999999"
    and f: "(49999999999999999 :: rat) / 100000000000000000 < 1 / 2"
    by simp_all
  have n: "fst (tiles frame_integer 100000000000000000 10 149999999999999999 10)
      \<noteq> max 1 (2 - 1)"
    unfolding t by simp
  from i m f c t n show ?thesis
    by (intro conjI) simp_all
qed

text \<open>
  C3, amended. Integer tile mode, on an axis whose destination extent is not a multiple
  of the source extent, all extents being positive and below \<open>2 ^ 1022\<close> (so that no
  conversion to float overflows): with \<open>f\<close> the double that
  \<^verbatim>\<open>(dest % src) / float(src)\<close> gives, the repeat count is the ceiling count minus one,
  but at least 1, if \<open>f < ratio\<close>, and the ceiling count otherwise (also when
  \<open>f = ratio\<close>). The tiled render has \<open>count * src\<close> on each axis, holds the cell at
  every multiple of the source extent, and is shown unclipped, through a scaling
  transform, in a render of exactly the destination size.
\<close>

theorem integer_tie_break:
  assumes "self_tile self = Tile_Integer"
    and "0 < csw" and "0 < csh" and "0 < cdw" and "0 < cdh"
    and "cdw mod csw \<noteq> 0 \<or> cdh mod csh \<noteq> 0"
    and "csw < 2 ^ 1022" and "csh < 2 ^ 1022" and "cdw < 2 ^ 1022" and "cdh < 2 ^ 1022"
  shows "\<exists>xtiles ytiles.
      tiles self csw csh cdw cdh = (xtiles, ytiles, csw * xtiles, csh * ytiles)
    \<and> (cdw mod csw \<noteq> 0 \<longrightarrow>
         xtiles = (if float_div (of_int (cdw mod csw)) (of_int csw) < self_tile_ratio self
                   then max 1 (\<lceil>(of_int cdw :: rat) / of_int csw\<rceil> - 1)
                   else \<lceil>(of_int cdw :: rat) / of_int csw\<rceil>))
    \<and> (cdh mod csh \<noteq> 0 \<longrightarrow>
         ytiles = (if float_div (of_int (cdh mod csh)) (of_int csh) < self_tile_ratio self
                   then max 1 (\<lceil>(of_int cdh :: rat) / of_int csh\<rceil> - 1)
                   else \<lceil>(of_int cdh :: rat) / of_int csh\<rceil>))
    \<and> scale_or_tile self csw csh cdw cdh cr =
        Render cdw cdh False False
          (Some (float_div (of_int (csw * xtiles)) (of_int cdw), 0, 0,
                 float_div (of_int (csh * ytiles)) (of_int cdh)))
          (Some (float_div (of_int cdw) (of_int (csw * xtiles)), 0, 0,
                 float_div (of_int cdh) (of_int (csh * ytiles))))
          [(Render (csw * xtiles) (csh * ytiles) True True None None
              (map (\<lambda>(x, y). (cr, x * csw, y * csh))
                 (List.product [0..xtiles - 1] [0..ytiles - 1])),
            0, 0)]"
proof -
  define x0 where "x0 = cdw div csw + (if cdw mod csw \<noteq> 0 then 1 else 0)"
  define y0 where "y0 = cdh div csh + (if cdh mod csh \<noteq> 0 then 1 else 0)"
  define xtiles where "xtiles =
    (if float_div (of_int (cdw mod csw)) (of_int csw) < self_tile_ratio self
     then max 1 (x0 - 1) else x0)"
  define ytiles where "ytiles =
    (if float_div (of_int (cdh mod csh)) (of_int csh) < self_tile_ratio self
     then max 1 (y0 - 1) else y0)"
  have x1: "1 \<le> x0" and y1: "1 \<le> y0"
    using assms(2-5) count_ge_1 by (simp_all add: x0_def y0_def)
  have cx: "\<lceil>(of_int cdw :: rat) / of_int csw\<rceil> = x0"
    and cy: "\<lceil>(of_int cdh :: rat) / of_int csh\<rceil> = y0"
    using assms(2,3) by (simp_all only: ceiling_count x0_def y0_def)
  have t: "tiles self csw csh cdw cdh = (xtiles, ytiles, csw * xtiles, csh * ytiles)"
    using x1 y1 assms(1,6)
    by (simp add: tiles_integer Let_def xtiles_def ytiles_def x0_def y0_def max_def)
  have ne: "csw * xtiles \<noteq> cdw \<or> csh * ytiles \<noteq> cdh"
    using assms(6) not_multiple by blast
  have s: "scale_or_tile self csw csh cdw cdh cr =
        scaled (tiled cr csw csh xtiles ytiles (csw * xtiles) (csh * ytiles))
          (csw * xtiles) (csh * ytiles) cdw cdh"
    using ne assms(1) by (simp add: scale_or_tile_def t)
  have x: "cdw mod csw \<noteq> 0 \<longrightarrow>
         xtiles = (if float_div (of_int (cdw mod csw)) (of_int csw) < self_tile_ratio self
                   then max 1 (\<lceil>(of_int cdw :: rat) / of_int csw\<rceil> - 1)
                   else \<lceil>(of_int cdw :: rat) / of_int csw\<rceil>)"
    unfolding cx by (simp add: xtiles_def)
  have y: "cdh mod csh \<noteq> 0 \<longrightarrow>
         ytiles = (if float_div (of_int (cdh mod csh)) (of_int csh) < self_tile_ratio self
                   then max 1 (\<lceil>(of_int cdh :: rat) / of_int csh\<rceil> - 1)
                   else \<lceil>(of_int cdh :: rat) / of_int csh\<rceil>)"
    unfolding cy by (simp add: ytiles_def)
  have r: "scale_or_tile self csw csh cdw cdh cr =
        Render cdw cdh False False
          (Some (float_div (of_int (csw * xtiles)) (of_int cdw), 0, 0,
                 float_div (of_int (csh * ytiles)) (of_int cdh)))
          (Some (float_div (of_int cdw) (of_int (csw * xtiles)), 0, 0,
                 float_div (of_int cdh) (of_int (csh * ytiles))))
          [(Render (csw * xtiles) (csh * ytiles) True True None None
              (map (\<lambda>(x, y). (cr, x * csw, y * csh))
                 (List.product [0..xtiles - 1] [0..ytiles - 1])),
            0, 0)]"
    unfolding s by (simp add: scaled_def tiled_eq)
  from t x y r show ?thesis
    by (intro exI [of _ xtiles] exI [of _ ytiles] conjI)
qed

text \<open>
  A source extent of 10 and a destination extent of 15, the other axis being 10 to 10.
  The ratio 0.5 gives two tiles, 20 scaled to 15; the ratio 0.51, which is the double
  2296835809958953 / 4503599627370496, gives one tile, 10 scaled to 15.
\<close>

theorem integer_tie_break_witness:
  "tiles frame_integer 10 10 15 10 = (2, 1, 20, 10)
   \<and> scale_or_tile frame_integer 10 10 15 10 cell_10 =
        Render 15 10 False False
          (Some (6004799503160661 / 4503599627370496, 0, 0, 1)) (Some (3 / 4, 0, 0, 1))
          [(Render 20 10 True True None None [(cell_10, 0, 0), (cell_10, 10, 0)], 0, 0)]
   \<and> self_tile_ratio frame_integer_51 = 2296835809958953 / 4503599627370496
   \<and> tiles frame_integer_51 10 10 15 10 = (1, 1, 10, 10)
   \<and> scale_or_tile frame_integer_51 10 10 15 10 cell_10 =
        Render 15 10 False False
          (Some (6004799503160661 / 9007199254740992, 0, 0, 1)) (Some (3 / 2, 0, 0, 1))
          [(Render 10 10 True True None None [(cell_10, 0, 0)], 0, 0)]"
proof -
  have a: "tiles frame_integer 10 10 15 10 = (2, 1, 20, 10)"
    and b: "tiles frame_integer_51 10 10 15 10 = (1, 1, 10, 10)"
    by (simp_all add: tiles_def frame_simps float_div_examples)
  have i: "self_tile frame_integer = Tile_Integer" "self_tile frame_integer_51 = Tile_Integer"
    and r: "self_tile_ratio frame_integer_51 = 2296835809958953 / 4503599627370496"
    by (simp_all add: frame_simps)
  from integer_tie_break [OF i(1), of 10 10 15 10 cell_10]
  have "scale_or_tile frame_integer 10 10 15 10 cell_10 =
        Render 15 10 False False
          (Some (6004799503160661 / 4503599627370496, 0, 0, 1)) (Some (3 / 4, 0, 0, 1))
          [(Render 20 10 True True None None [(cell_10, 0, 0), (cell_10, 10, 0)], 0, 0)]"
    by (auto simp add: a float_div_examples upto_small)
  moreover from integer_tie_break [OF i(2), of 10 10 15 10 cell_10]
  have "scale_or_tile frame_integer_51 10 10 15 10 cell_10 =
        Render 15 10 False False
          (Some (6004799503160661 / 9007199254740992, 0, 0, 1)) (Some (3 / 2, 0, 0, 1))
          [(Render 10 10 True True None None [(cell_10, 0, 0)], 0, 0)]"
    by (auto simp add: b float_div_examples upto_small)
  ultimately show ?thesis using a b r by blast
qed

text \<open>
  When both extents are multiples, the counts are the exact quotients and the tiled
  render is used unscaled.
\<close>

lemma integer_exact_both:
  assumes "self_tile self \<noteq> Tile_False"
    and "0 < csw" and "0 < csh" and "0 < cdw" and "0 < cdh"
    and "cdw mod csw = 0" and "cdh mod csh = 0"
  shows "tiles self csw csh cdw cdh = (cdw div csw, cdh div csh, cdw, cdh)"
    and "scale_or_tile self csw csh cdw cdh cr =
           tiled cr csw csh (cdw div csw) (cdh div csh) cdw cdh"
proof -
  have "1 \<le> cdw div csw" "1 \<le> cdh div csh"
    using count_ge_1 [of csw cdw] count_ge_1 [of csh cdh] assms by simp_all
  then show t: "tiles self csw csh cdw cdh = (cdw div csw, cdh div csh, cdw, cdh)"
    using assms(6,7) by (simp add: tiles_plain)
  show "scale_or_tile self csw csh cdw cdh cr =
           tiled cr csw csh (cdw div csw) (cdh div csh) cdw cdh"
    using assms(1) by (simp add: scale_or_tile_def t)
qed

text \<open>
  C2. Stated property: in integer tile mode, on an axis whose destination extent is an
  exact multiple of the source extent, the repeat count is the exact quotient and that
  axis is not scaled, whatever the other axis is. The code departs from it: the guard
  of line 392 joins the two axes with \<^verbatim>\<open>or\<close>, so when only the other axis is not a
  multiple, the remainder \<open>0\<close> of the exact axis is compared with the ratio too, is below
  any positive ratio, and costs a tile. A 10 by 10 cell drawn at 20 by 15 with ratio 0.5
  is tiled once, not twice, along \<open>x\<close> and scaled from 10 to 20.
\<close>

theorem integer_exact_axis_drops_tile:
  "(20::int) mod 10 = 0 \<and> (20::int) div 10 = 2
   \<and> tiles frame_integer 10 10 20 15 = (1, 2, 10, 20)
   \<and> scale_or_tile frame_integer 10 10 20 15 cell_10 =
        Render 20 15 False False (Some (1 / 2, 0, 0, 6004799503160661 / 4503599627370496))
            (Some (2, 0, 0, 3 / 4))
          [(Render 10 20 True True None None [(cell_10, 0, 0), (cell_10, 0, 10)], 0, 0)]
   \<and> render frame_integer 0 0 (10, 10) (10, 10) False 20 15 =
        Render 20 15 False False None None
          [(Render 20 15 False False (Some (1 / 2, 0, 0, 6004799503160661 / 4503599627370496))
            (Some (2, 0, 0, 3 / 4))
             [(Render 10 20 True True None None [(cell_10, 0, 0), (cell_10, 0, 10)], 0, 0)],
            0, 0)]"
proof -
  have t: "tiles frame_integer 10 10 20 15 = (1, 2, 10, 20)"
    by (simp add: tiles_def frame_simps float_div_examples)
  have i: "self_tile frame_integer = Tile_Integer"
    by (simp add: frame_simps)
  have s: "scale_or_tile frame_integer 10 10 20 15 cell_10 =
        Render 20 15 False False (Some (1 / 2, 0, 0, 6004799503160661 / 4503599627370496))
            (Some (2, 0, 0, 3 / 4))
          [(Render 10 20 True True None None [(cell_10, 0, 0), (cell_10, 0, 10)], 0, 0)]"
    by (simp add: scale_or_tile_def t i scaled_def tiled_def upto_small float_div_examples)
  have b: "render_borders frame_integer 10 10 20 15 = (0, 0, 0, 0)"
    by (simp add: render_borders_def frame_simps)
  have d: "render_draw frame_integer 10 10 20 15 0 0 0 0 rv =
             blit rv (scale_or_tile frame_integer 10 10 20 15 cell_10) (0, 0)" for rv
    by (simp add: render_draw_def cell_10_def)
  have r: "render frame_integer 0 0 (10, 10) (10, 10) False 20 15 =
        Render 20 15 False False None None
          [(Render 20 15 False False (Some (1 / 2, 0, 0, 6004799503160661 / 4503599627370496))
            (Some (2, 0, 0, 3 / 4))
             [(Render 10 20 True True None None [(cell_10, 0, 0), (cell_10, 0, 10)], 0, 0)],
            0, 0)]"
    by (simp add: render_def b draw_pattern_def d s new_Render_def)
  from t s r show ?thesis by simp
qed

text \<open>
  At that cell the count along \<open>x\<close> is 1 while the quotient is 2, and the transform
  halves \<open>x\<close>.
\<close>

theorem integer_exact_axis_drops_tile_witness:
  "fst (tiles frame_integer 10 10 20 15) = 1
   \<and> fst (tiles frame_integer 10 10 20 15) \<noteq> 20 div 10
   \<and> scale_or_tile frame_integer 10 10 20 15 cell_10 \<noteq> tiled cell_10 10 10 2 2 20 15"
  using integer_exact_axis_drops_tile by (simp add: tiled_eq)

text \<open>
  Simple tile mode in \<^verbatim>\<open>Frame.render\<close>: the counts are the ceilings, at least 1 and
  enough to cover the destination, and the result is the clipping render of exactly
  the destination size, with no scaling transform.
\<close>

lemma simple_tile_render:
  assumes "self_tile self = Tile_True"
    and "0 < csw" and "0 < csh" and "0 < cdw" and "0 < cdh"
  shows "tiles self csw csh cdw cdh =
           (\<lceil>(of_int cdw :: rat) / of_int csw\<rceil>, \<lceil>(of_int cdh :: rat) / of_int csh\<rceil>, cdw, cdh)"
    and "1 \<le> \<lceil>(of_int cdw :: rat) / of_int csw\<rceil>"
    and "cdw \<le> csw * \<lceil>(of_int cdw :: rat) / of_int csw\<rceil>"
    and "scale_or_tile self csw csh cdw cdh cr =
           Render cdw cdh True True None None
             (map (\<lambda>(x, y). (cr, x * csw, y * csh))
                (List.product [0..\<lceil>(of_int cdw :: rat) / of_int csw\<rceil> - 1]
                              [0..\<lceil>(of_int cdh :: rat) / of_int csh\<rceil> - 1]))"
proof -
  have x1: "1 \<le> cdw div csw + (if cdw mod csw \<noteq> 0 then 1 else 0)"
    and y1: "1 \<le> cdh div csh + (if cdh mod csh \<noteq> 0 then 1 else 0)"
    using assms count_ge_1 by simp_all
  show t: "tiles self csw csh cdw cdh =
           (\<lceil>(of_int cdw :: rat) / of_int csw\<rceil>, \<lceil>(of_int cdh :: rat) / of_int csh\<rceil>, cdw, cdh)"
    using assms(1) x1 y1 by (simp add: tiles_plain ceiling_count [OF assms(2)] ceiling_count [OF assms(3)])
  show "1 \<le> \<lceil>(of_int cdw :: rat) / of_int csw\<rceil>"
    using x1 by (simp only: ceiling_count [OF assms(2)])
  show "cdw \<le> csw * \<lceil>(of_int cdw :: rat) / of_int csw\<rceil>"
    using count_covers [OF assms(2), of cdw] by (simp only: ceiling_count [OF assms(2)])
  show "scale_or_tile self csw csh cdw cdh cr =
           Render cdw cdh True True None None
             (map (\<lambda>(x, y). (cr, x * csw, y * csh))
                (List.product [0..\<lceil>(of_int cdw :: rat) / of_int csw\<rceil> - 1]
                              [0..\<lceil>(of_int cdh :: rat) / of_int csh\<rceil> - 1]))"
    using assms(1) by (simp add: scale_or_tile_def t tiled_eq)
qed

text \<open>
  C4. Stated property: in simple tile mode the repeat count is the ceiling of
  destination over source, at least 1, and the tiled block is cropped to the
  destination size with no scaling afterwards. \<^verbatim>\<open>Frame.render\<close> does so (lemma
  \<open>simple_tile_render\<close>). \<^verbatim>\<open>Frame.sw_render\<close> crops the tiled surface and then still
  scales it: \<^verbatim>\<open>srcsize\<close> keeps the size of one tile in the \<^verbatim>\<open>self.tile is True\<close> branch,
  so \<^verbatim>\<open>dstsize != srcsize\<close> holds at line 554. A 10 by 10 cell drawn at 15 by 15 is
  cropped from 20 by 20 and passed through \<^verbatim>\<open>real_transform_scale\<close>.
\<close>

theorem sw_simple_tile_scaled:
  "sw_scale_or_tile frame_tile (10, 10) (15, 15) source_10 =
     Transform_scale
       (Sub (Surface 20 20
              [(source_10, 0, 0), (source_10, 10, 0), (source_10, 0, 10), (source_10, 10, 10)])
          0 0 15 15)
       (15, 15)
   \<and> scale_or_tile frame_tile 10 10 15 15 cell_10 =
     Render 15 15 True True None None
       [(cell_10, 0, 0), (cell_10, 0, 10), (cell_10, 10, 0), (cell_10, 10, 10)]"
  by (simp add: sw_scale_or_tile_def scale_or_tile_def tiles_def tiled_def upto_small frame_simps)

text \<open>
  The cell blitted by the software path is the result of \<^verbatim>\<open>real_transform_scale\<close>; the cell
  blitted by the texture path has no transform.
\<close>

theorem sw_simple_tile_scaled_witness:
  "(\<exists>surf. sw_scale_or_tile frame_tile (10, 10) (15, 15) source_10 = Transform_scale surf (15, 15))
   \<and> (\<exists>cs. scale_or_tile frame_tile 10 10 15 15 cell_10 = Render 15 15 True True None None cs)"
  using sw_simple_tile_scaled by simp

lemma sw_simple_tile_always_scaled:
  assumes "self_tile self = Tile_True" and "dstsize \<noteq> srcsize"
  shows "\<exists>surf2. sw_scale_or_tile self srcsize dstsize surf =
           Transform_scale (Sub surf2 0 0 (fst dstsize) (snd dstsize)) dstsize"
  using assms by (cases srcsize; cases dstsize) (simp add: sw_scale_or_tile_def Let_def)

subsection \<open>Degenerate cells\<close>

text \<open>
  Both \<^verbatim>\<open>draw\<close> closures in terms of the source and destination rectangles of the
  cell.
\<close>

lemma render_draw_rects:
  "render_draw self sw sh dw dh x0 x1 y0 y1 rv =
     (case source_rect sw sh (x0, x1, y0, y1) of (sx0, sx1, sy0, sy1) \<Rightarrow>
      case dest_rect dw dh (x0, x1, y0, y1) of (dx0, dx1, dy0, dy1) \<Rightarrow>
        if sx1 - sx0 \<le> 0 \<or> sy1 - sy0 \<le> 0 \<or> dy1 - dy0 \<le> 0 \<or> dx1 - dx0 \<le> 0 then rv
        else blit rv
               (if sx1 - sx0 \<noteq> dx1 - dx0 \<or> sy1 - sy0 \<noteq> dy1 - dy0
                then scale_or_tile self (sx1 - sx0) (sy1 - sy0) (dx1 - dx0) (dy1 - dy0)
                       (Subsurface sx0 sy0 (sx1 - sx0) (sy1 - sy0))
                else Subsurface sx0 sy0 (sx1 - sx0) (sy1 - sy0))
               (dx0, dy0))"
proof -
  obtain sx0 sx1 sy0 sy1 where s: "source_rect sw sh (x0, x1, y0, y1) = (sx0, sx1, sy0, sy1)"
    by (cases "source_rect sw sh (x0, x1, y0, y1)") auto
  obtain dx0 dx1 dy0 dy1 where d: "dest_rect dw dh (x0, x1, y0, y1) = (dx0, dx1, dy0, dy1)"
    by (cases "dest_rect dw dh (x0, x1, y0, y1)") auto
  have a: "(if x0 \<ge> 0 then (x0, x0) else (dw + x0, sw + x0)) = (dx0, sx0)"
    and b: "(if x1 > 0 then (x1, x1) else (dw + x1, sw + x1)) = (dx1, sx1)"
    and c: "(if y0 \<ge> 0 then (y0, y0) else (dh + y0, sh + y0)) = (dy0, sy0)"
    and e: "(if y1 > 0 then (y1, y1) else (dh + y1, sh + y1)) = (dy1, sy1)"
    using s d by (auto simp add: source_rect_def dest_rect_def)
  show ?thesis
    unfolding render_draw_def a b c e s d by (simp add: Let_def)
qed

lemma sw_render_draw_rects:
  "sw_render_draw self sw sh dw dh x0 x1 y0 y1 dest =
     (case source_rect sw sh (x0, x1, y0, y1) of (sx0, sx1, sy0, sy1) \<Rightarrow>
      case dest_rect dw dh (x0, x1, y0, y1) of (dx0, dx1, dy0, dy1) \<Rightarrow>
        if sx0 = sx1 \<or> sy0 = sy1 \<or> dx1 \<le> dx0 \<or> dy1 \<le> dy0 then dest
        else surface_blit dest
               (if (dx1 - dx0, dy1 - dy0) \<noteq> (sx1 - sx0, sy1 - sy0)
                then sw_scale_or_tile self (sx1 - sx0, sy1 - sy0) (dx1 - dx0, dy1 - dy0)
                       (Source_subsurface sx0 sy0 (sx1 - sx0) (sy1 - sy0))
                else Source_subsurface sx0 sy0 (sx1 - sx0) (sy1 - sy0))
               (dx0, dy0))"
proof -
  obtain sx0 sx1 sy0 sy1 where s: "source_rect sw sh (x0, x1, y0, y1) = (sx0, sx1, sy0, sy1)"
    by (cases "source_rect sw sh (x0, x1, y0, y1)") auto
  obtain dx0 dx1 dy0 dy1 where d: "dest_rect dw dh (x0, x1, y0, y1) = (dx0, dx1, dy0, dy1)"
    by (cases "dest_rect dw dh (x0, x1, y0, y1)") auto
  have a: "(if x0 \<ge> 0 then (x0, x0) else (dw + x0, sw + x0)) = (dx0, sx0)"
    and b: "(if x1 > 0 then (x1, x1) else (dw + x1, sw + x1)) = (dx1, sx1)"
    and c: "(if y0 \<ge> 0 then (y0, y0) else (dh + y0, sh + y0)) = (dy0, sy0)"
    and e: "(if y1 > 0 then (y1, y1) else (dh + y1, sh + y1)) = (dy1, sy1)"
    using s d by (auto simp add: source_rect_def dest_rect_def)
  show ?thesis
    unfolding sw_render_draw_def a b c e s d by (simp add: Let_def)
qed

text \<open>
  \<^verbatim>\<open>draw\<close> of \<^verbatim>\<open>Frame.render\<close> leaves the render untouched when a source or
  destination extent is zero or negative; \<^verbatim>\<open>draw\<close> of \<^verbatim>\<open>Frame.sw_render\<close> does so
  when a source extent is zero or a destination extent is zero or negative.
\<close>

lemma render_draw_degenerate:
  assumes "source_rect sw sh (x0, x1, y0, y1) = (sx0, sx1, sy0, sy1)"
    and "dest_rect dw dh (x0, x1, y0, y1) = (dx0, dx1, dy0, dy1)"
    and "sx1 - sx0 \<le> 0 \<or> sy1 - sy0 \<le> 0 \<or> dx1 - dx0 \<le> 0 \<or> dy1 - dy0 \<le> 0"
  shows "render_draw self sw sh dw dh x0 x1 y0 y1 rv = rv"
  using assms(3) unfolding render_draw_rects assms(1,2) by auto

lemma sw_render_draw_degenerate:
  assumes "source_rect sw sh (x0, x1, y0, y1) = (sx0, sx1, sy0, sy1)"
    and "dest_rect dw dh (x0, x1, y0, y1) = (dx0, dx1, dy0, dy1)"
    and "sx1 - sx0 = 0 \<or> sy1 - sy0 = 0 \<or> dx1 - dx0 \<le> 0 \<or> dy1 - dy0 \<le> 0"
  shows "sw_render_draw self sw sh dw dh x0 x1 y0 y1 dest = dest"
  using assms(3) unfolding sw_render_draw_rects assms(1,2) by auto

text \<open>
  C7. Stated property: a cell whose source or destination width or height is zero or
  negative is skipped by \<^verbatim>\<open>draw\<close>, with no subsurface, tiling, scaling or blit.
  \<^verbatim>\<open>Frame.render\<close> does so (lemma \<open>render_draw_degenerate\<close>). \<^verbatim>\<open>draw\<close> of
  \<^verbatim>\<open>Frame.sw_render\<close> has no test for a negative source extent (line 511), unlike line
  378. A frame with a left inset of 1 on a child of size 0 by 10, drawn at 5 by 5, gets
  the left border \<open>- 2\<close>; the left cell has source width \<open>- 2\<close> and is extracted,
  scaled and blitted.
\<close>

theorem sw_render_draw_negative_source:
  "render_borders frame_left_1 0 10 5 5 = (- 2, 0, 0, 0)
   \<and> source_rect 0 10 (0, - 2, 0, 0) = (0, - 2, 0, 10)
   \<and> dest_rect 5 5 (0, - 2, 0, 0) = (0, 3, 0, 5)
   \<and> sw_render_draw frame_left_1 0 10 5 5 0 (- 2) 0 0 (Surface 5 5 []) =
       Surface 5 5 [(Transform_scale (Source_subsurface 0 0 (- 2) 10) (3, 5), 0, 0)]
   \<and> render_draw frame_left_1 0 10 5 5 0 (- 2) 0 0 (new_Render 5 5) = new_Render 5 5
   \<and> render frame_left_1 0 0 (0, 10) (0, 10) True 5 5 =
       Render 5 5 False False None None
         [(Texture
            (Surface 5 5
              [(Transform_scale (Source_subsurface 0 0 (- 2) 10) (3, 5), 0, 0),
               (Transform_scale (Source_subsurface (- 2) 0 2 10) (2, 5), 3, 0)]),
           0, 0)]"
proof -
  have b: "render_borders frame_left_1 0 10 5 5 = (- 2, 0, 0, 0)"
    by (simp add: render_borders_def frame_simps)
  have f: "self_tile frame_left_1 = Tile_False"
    by (simp add: frame_simps)
  have d1: "sw_render_draw frame_left_1 0 10 5 5 0 (- 2) 0 0 (Surface 5 5 []) =
       Surface 5 5 [(Transform_scale (Source_subsurface 0 0 (- 2) 10) (3, 5), 0, 0)]"
    by (simp add: sw_render_draw_def sw_scale_or_tile_def f)
  have d2: "sw_render_draw frame_left_1 0 10 5 5 (- 2) 0 0 0
       (Surface 5 5 [(Transform_scale (Source_subsurface 0 0 (- 2) 10) (3, 5), 0, 0)]) =
       Surface 5 5 [(Transform_scale (Source_subsurface 0 0 (- 2) 10) (3, 5), 0, 0),
               (Transform_scale (Source_subsurface (- 2) 0 2 10) (2, 5), 3, 0)]"
    by (simp add: sw_render_draw_def sw_scale_or_tile_def f)
  have p: "draw_pattern (sw_render_draw frame_left_1 0 10 5 5) (- 2) 0 0 0 (Surface 5 5 []) =
       Surface 5 5 [(Transform_scale (Source_subsurface 0 0 (- 2) 10) (3, 5), 0, 0),
               (Transform_scale (Source_subsurface (- 2) 0 2 10) (2, 5), 3, 0)]"
    by (simp add: draw_pattern_def d1 d2)
  have r: "render frame_left_1 0 0 (0, 10) (0, 10) True 5 5 =
       Render 5 5 False False None None
         [(Texture
            (Surface 5 5
              [(Transform_scale (Source_subsurface 0 0 (- 2) 10) (3, 5), 0, 0),
               (Transform_scale (Source_subsurface (- 2) 0 2 10) (2, 5), 3, 0)]),
           0, 0)]"
    by (simp add: render_def b sw_render_def p new_Render_def)
  have g: "render_draw frame_left_1 0 10 5 5 0 (- 2) 0 0 (new_Render 5 5) = new_Render 5 5"
    by (simp add: render_draw_def)
  have s: "source_rect 0 10 (0, - 2, 0, 0) = (0, - 2, 0, 10)"
    by (simp add: source_rect_def)
  have d: "dest_rect 5 5 (0, - 2, 0, 0) = (0, 3, 0, 5)"
    by (simp add: dest_rect_def)
  show ?thesis
    using b s d d1 g r by (intro conjI)
qed

text \<open>
  The surface drawn into receives a blit from that call, while the render of the
  texture path receives none.
\<close>

theorem sw_render_draw_negative_source_witness:
  "sw_render_draw frame_left_1 0 10 5 5 0 (- 2) 0 0 (Surface 5 5 []) \<noteq> Surface 5 5 []
   \<and> render_draw frame_left_1 0 10 5 5 0 (- 2) 0 0 (new_Render 5 5) = new_Render 5 5"
  using sw_render_draw_negative_source by simp

subsection \<open>The nine-slice grid\<close>

text \<open>
  Two rectangles overlap exactly when they share a pixel.
\<close>

lemma overlap_pixels: "overlap r q \<longleftrightarrow> pixels r \<inter> pixels q \<noteq> {}"
proof -
  obtain a0 a1 b0 b1 where r: "r = (a0, a1, b0, b1)" by (cases r) auto
  obtain c0 c1 d0 d1 where q: "q = (c0, c1, d0, d1)" by (cases q) auto
  have "pixels r \<inter> pixels q = ({a0..<a1} \<inter> {c0..<c1}) \<times> ({b0..<b1} \<inter> {d0..<d1})"
    by (auto simp add: pixels_def r q)
  also have "\<dots> = {max a0 c0..<min a1 c1} \<times> {max b0 d0..<min b1 d1}"
    by auto
  finally show ?thesis
    by (auto simp add: overlap_def r q)
qed

text \<open>
  The enumerated cells: their destination rectangles do not overlap, have non-negative
  areas, and the areas add up to the area of the destination.
\<close>

lemma cells_area_nonneg:
  assumes "0 \<le> left" and "0 \<le> top'" and "0 \<le> right" and "0 \<le> bottom"
    and "left + right \<le> dw" and "top' + bottom \<le> dh"
  shows "\<forall>q \<in> set (map (dest_rect dw dh) (cells left top' right bottom)). 0 \<le> area q"
  using assms
  by (cases "left = 0"; cases "right = 0"; cases "top' = 0"; cases "bottom = 0")
     (simp_all add: cells_def draw_pattern_def dest_rect_def area_def)


lemma cells_no_overlap:
  assumes "0 \<le> left" and "0 \<le> top'" and "0 \<le> right" and "0 \<le> bottom"
    and "left + right \<le> dw" and "top' + bottom \<le> dh"
  shows "no_overlap (map (dest_rect dw dh) (cells left top' right bottom))"
  using assms
  by (cases "left = 0"; cases "right = 0"; cases "top' = 0"; cases "bottom = 0")
     (simp_all add: cells_def draw_pattern_def dest_rect_def overlap_def)

lemma cells_area_sum:
  assumes "0 \<le> left" and "0 \<le> top'" and "0 \<le> right" and "0 \<le> bottom"
  shows "sum_list (map (\<lambda>c. area (dest_rect dw dh c)) (cells left top' right bottom)) = dw * dh"
  using assms
  by (cases "left = 0"; cases "right = 0"; cases "top' = 0"; cases "bottom = 0")
     (simp_all add: cells_def draw_pattern_def dest_rect_def area_def algebra_simps)

text \<open>
  What \<^verbatim>\<open>draw\<close> and \<^verbatim>\<open>draw_pattern\<close> of \<^verbatim>\<open>Frame.render\<close> add to a render: the child
  made for a cell has the size of the destination rectangle, and a cell is drawn unless
  an extent is zero or negative.
\<close>

lemma get_size_tiled: "get_size (tiled cr csw csh xtiles ytiles ctw cth) = (ctw, cth)"
  by (simp add: tiled_eq)

lemma get_size_scaled: "get_size (scaled cr csw csh cdw cdh) = (cdw, cdh)"
  by (simp add: scaled_def)

lemma get_size_scale_or_tile:
  assumes "csw \<noteq> cdw \<or> csh \<noteq> cdh"
  shows "get_size (scale_or_tile self csw csh cdw cdh cr) = (cdw, cdh)"
proof (cases "self_tile self = Tile_False")
  case True
  with assms show ?thesis by (simp add: scale_or_tile_def get_size_scaled)
next
  case False
  obtain xtiles ytiles ctw cth where t: "tiles self csw csh cdw cdh = (xtiles, ytiles, ctw, cth)"
    by (cases "tiles self csw csh cdw cdh") auto
  show ?thesis
    using False by (auto simp add: scale_or_tile_def t get_size_tiled get_size_scaled)
qed

lemma render_draw_Render:
  "render_draw self sw sh dw dh x0 x1 y0 y1 (Render w h xc yc fw rv cs) =
     Render w h xc yc fw rv (cs @ drawn self sw sh dw dh (x0, x1, y0, y1))"
proof -
  obtain sx0 sx1 sy0 sy1 where s: "source_rect sw sh (x0, x1, y0, y1) = (sx0, sx1, sy0, sy1)"
    by (cases "source_rect sw sh (x0, x1, y0, y1)") auto
  obtain dx0 dx1 dy0 dy1 where d: "dest_rect dw dh (x0, x1, y0, y1) = (dx0, dx1, dy0, dy1)"
    by (cases "dest_rect dw dh (x0, x1, y0, y1)") auto
  show ?thesis
    by (simp add: drawn_def render_draw_rects s d new_Render_def)
qed

lemma draw_pattern_Render:
  "draw_pattern (render_draw self sw sh dw dh) left top' right bottom (Render w h xc yc fw rv cs) =
     Render w h xc yc fw rv
       (cs @ concat (map (drawn self sw sh dw dh) (cells left top' right bottom)))"
  by (cases "left = 0"; cases "right = 0"; cases "top' = 0"; cases "bottom = 0")
     (simp_all add: draw_pattern_def cells_def render_draw_Render Let_def)

lemma blit_rect_drawn:
  "map blit_rect (drawn self sw sh dw dh c) =
     (case source_rect sw sh c of (sx0, sx1, sy0, sy1) \<Rightarrow>
      case dest_rect dw dh c of (dx0, dx1, dy0, dy1) \<Rightarrow>
        if sx1 - sx0 \<le> 0 \<or> sy1 - sy0 \<le> 0 \<or> dy1 - dy0 \<le> 0 \<or> dx1 - dx0 \<le> 0 then []
        else [dest_rect dw dh c])"
proof -
  obtain x0 x1 y0 y1 where c: "c = (x0, x1, y0, y1)" by (cases c) auto
  obtain sx0 sx1 sy0 sy1 where s: "source_rect sw sh (x0, x1, y0, y1) = (sx0, sx1, sy0, sy1)"
    by (cases "source_rect sw sh (x0, x1, y0, y1)") auto
  obtain dx0 dx1 dy0 dy1 where d: "dest_rect dw dh (x0, x1, y0, y1) = (dx0, dx1, dy0, dy1)"
    by (cases "dest_rect dw dh (x0, x1, y0, y1)") auto
  show ?thesis
    by (auto simp add: c drawn_def render_draw_rects s d new_Render_def blit_rect_def
        get_size_scale_or_tile)
qed

text \<open>
  With a source wider than \<open>left + right\<close> and higher than \<open>top + bottom\<close>, the cells
  drawn are the enumerated cells of positive area.
\<close>

lemma concat_map_filter:
  assumes "\<forall>c \<in> set xs. f c = (if P (g c) then [g c] else [])"
  shows "concat (map f xs) = filter P (map g xs)"
  using assms by (induction xs) auto

lemma no_overlap_filter:
  assumes "no_overlap rs"
  shows "no_overlap (filter P rs)"
  using assms by (induction rs) (auto simp add: list_all_iff)

lemma sum_area_filter:
  assumes "\<forall>q \<in> set rs. 0 \<le> area q"
  shows "sum_list (map area (filter (\<lambda>q. 0 < area q) rs)) = sum_list (map area rs)"
  using assms by (induction rs) auto

lemma cells_drawn:
  assumes "0 \<le> left" and "0 \<le> top'" and "0 \<le> right" and "0 \<le> bottom"
    and "left + right \<le> dw" and "top' + bottom \<le> dh"
    and "left + right < sw" and "top' + bottom < sh"
  shows "\<forall>c \<in> set (cells left top' right bottom).
           map blit_rect (drawn self sw sh dw dh c) =
             (if 0 < area (dest_rect dw dh c) then [dest_rect dw dh c] else [])"
  using assms
  by (cases "left = 0"; cases "right = 0"; cases "top' = 0"; cases "bottom = 0")
     (simp_all add: cells_def draw_pattern_def blit_rect_drawn source_rect_def dest_rect_def
        area_def zero_less_mult_iff)

lemma render_blits_partition:
  assumes "0 \<le> left" and "0 \<le> top'" and "0 \<le> right" and "0 \<le> bottom"
    and "left + right \<le> dw" and "top' + bottom \<le> dh"
    and "left + right < sw" and "top' + bottom < sh"
  shows "map blit_rect
           (blits (draw_pattern (render_draw self sw sh dw dh) left top' right bottom
                     (new_Render dw dh))) =
         filter (\<lambda>q. 0 < area q) (map (dest_rect dw dh) (cells left top' right bottom))"
    and "no_overlap (map blit_rect
           (blits (draw_pattern (render_draw self sw sh dw dh) left top' right bottom
                     (new_Render dw dh))))"
    and "sum_list (map area (map blit_rect
           (blits (draw_pattern (render_draw self sw sh dw dh) left top' right bottom
                     (new_Render dw dh))))) = dw * dh"
proof -
  let ?cs = "cells left top' right bottom"
  have "map blit_rect
           (blits (draw_pattern (render_draw self sw sh dw dh) left top' right bottom
                     (new_Render dw dh))) =
        concat (map (\<lambda>c. map blit_rect (drawn self sw sh dw dh c)) ?cs)"
    by (simp add: new_Render_def draw_pattern_Render map_concat comp_def)
  also have "\<dots> = filter (\<lambda>q. 0 < area q) (map (dest_rect dw dh) ?cs)"
    by (rule concat_map_filter) (rule cells_drawn [OF assms])
  finally show e: "map blit_rect
           (blits (draw_pattern (render_draw self sw sh dw dh) left top' right bottom
                     (new_Render dw dh))) =
         filter (\<lambda>q. 0 < area q) (map (dest_rect dw dh) ?cs)" .
  show "no_overlap (map blit_rect
           (blits (draw_pattern (render_draw self sw sh dw dh) left top' right bottom
                     (new_Render dw dh))))"
    unfolding e by (rule no_overlap_filter) (rule cells_no_overlap [OF assms(1-6)])
  have "sum_list (map area (filter (\<lambda>q. 0 < area q) (map (dest_rect dw dh) ?cs))) =
        sum_list (map area (map (dest_rect dw dh) ?cs))"
    by (rule sum_area_filter) (rule cells_area_nonneg [OF assms(1-6)])
  also have "\<dots> = dw * dh"
    using cells_area_sum [OF assms(1-4), of dw dh] by (simp add: comp_def)
  finally show "sum_list (map area (map blit_rect
           (blits (draw_pattern (render_draw self sw sh dw dh) left top' right bottom
                     (new_Render dw dh))))) = dw * dh"
    unfolding e .
qed

text \<open>
  \<^verbatim>\<open>Frame.render\<close> with the texture renderer, non-negative insets and a child of at
  least 2 by 2: the children of the result tile the destination.
\<close>

lemma render_partition:
  assumes "0 \<le> self_left self" and "0 \<le> self_top self"
    and "0 \<le> self_right self" and "0 \<le> self_bottom self"
    and "2 \<le> sw" and "2 \<le> sh" and "0 \<le> max xminimum width" and "0 \<le> max yminimum height"
  shows "no_overlap (map blit_rect
           (blits (render self xminimum yminimum (sw, sh) source_size False width height)))"
    and "sum_list (map area (map blit_rect
           (blits (render self xminimum yminimum (sw, sh) source_size False width height)))) =
         max xminimum width * max yminimum height"
proof -
  let ?dw = "max xminimum width" and ?dh = "max yminimum height"
  let ?l = "dest_left self sw sh ?dw ?dh" and ?t = "dest_top self sw sh ?dw ?dh"
  let ?r = "dest_right self sw sh ?dw ?dh" and ?b = "dest_bottom self sw sh ?dw ?dh"
  note a = assms(1-6) assms(7) assms(8)
  have n: "0 \<le> ?l" "0 \<le> ?t" "0 \<le> ?r" "0 \<le> ?b"
    using borders_nonneg [OF a] by simp_all
  have x: "?l + ?r \<le> xb self sw ?dw"
    using horizontal_sum_le [OF assms(1,3,5,7)] by simp
  have y: "?t + ?b \<le> yb self sh ?dh"
    using vertical_sum_le [OF assms(2,4,6,8)] by simp
  have d: "?l + ?r \<le> ?dw" "?t + ?b \<le> ?dh" and s: "?l + ?r < sw" "?t + ?b < sh"
    using x y by (simp_all add: xb_def yb_def)
  have e: "render self xminimum yminimum (sw, sh) source_size False width height =
        draw_pattern (render_draw self sw sh ?dw ?dh) ?l ?t ?r ?b (new_Render ?dw ?dh)"
    by (simp add: render_def render_borders_eq Let_def)
  show "no_overlap (map blit_rect
           (blits (render self xminimum yminimum (sw, sh) source_size False width height)))"
    unfolding e by (rule render_blits_partition(2) [OF n d s])
  show "sum_list (map area (map blit_rect
           (blits (render self xminimum yminimum (sw, sh) source_size False width height)))) =
         max xminimum width * max yminimum height"
    unfolding e by (rule render_blits_partition(3) [OF n d s])
qed



subsection \<open>Solid.render\<close>

text \<open>
  C9. When neither the displayable nor its style has a colour, or the request has zero
  area, or the width or height tested at line 82 is zero or negative, \<^verbatim>\<open>Solid.render\<close>
  returns the render it created, with no transform and no blit.
\<close>

theorem solid_render_empty:
  assumes "(self_color = None \<and> style_color = None)
         \<or> max xminimum width = 0 \<or> max yminimum height = 0
         \<or> fst (solid_size xminimum yminimum minw minh width height) \<le> 0
         \<or> snd (solid_size xminimum yminimum minw minh width height) \<le> 0"
  shows "solid_render self_color style_color xminimum yminimum minw minh width height =
           \<lparr>sr_width = max xminimum width, sr_height = max yminimum height,
            sr_forward = None, sr_reverse = None, sr_blits = []\<rparr>"
proof -
  have z: "max xminimum width = 0 \<or> max yminimum height = 0 \<Longrightarrow>
        fst (solid_size xminimum yminimum minw minh width height) \<le> 0
         \<or> snd (solid_size xminimum yminimum minw minh width height) \<le> 0"
    by (auto simp add: solid_size_def Let_def)
  from assms z consider "self_color = None \<and> style_color = None"
    | "fst (solid_size xminimum yminimum minw minh width height) \<le> 0
         \<or> snd (solid_size xminimum yminimum minw minh width height) \<le> 0"
    by blast
  then show ?thesis
  proof cases
    case 1
    then show ?thesis by (simp add: solid_render_def Let_def split: prod.splits)
  next
    case 2
    then show ?thesis
      by (cases "solid_size xminimum yminimum minw minh width height")
         (auto simp add: solid_render_def Let_def split: option.splits)
  qed
qed

text \<open>A request of 0 by 0 with a colour, and one of 500 by 500 with no colour at all.\<close>

theorem solid_render_empty_witness:
  "solid_render (Some white) None 0 0 1 1 0 0 =
     \<lparr>sr_width = 0, sr_height = 0, sr_forward = None, sr_reverse = None, sr_blits = []\<rparr>
   \<and> solid_render None None 0 0 1 1 500 500 =
     \<lparr>sr_width = 500, sr_height = 500, sr_forward = None, sr_reverse = None, sr_blits = []\<rparr>"
  using solid_render_empty [of "Some white" None 0 0 0 0 1 1]
    solid_render_empty [of None None 0 500 0 500 1 1]
  by simp




end
